theory Spec2Isabelle
  imports Complex_Main
begin

section \<open>Numbers\<close>

text \<open>
  The library computes in double precision. Finite floating-point values are modelled as
  real numbers, and every arithmetic operation as the exact operation on the reals, so
  rounding and overflow are outside the model. The tolerances of the source
  (\<^verbatim>\<open>np.isclose\<close>, \<^verbatim>\<open>iszero\<close>, \<^verbatim>\<open>isone\<close>) are kept as they are written.
\<close>

definition P :: real where
  \<comment> \<open>\<^verbatim>\<open>P = -1\<close>, the module constant of rotation.py\<close>
  "P = - 1"

definition isclose :: "real \<Rightarrow> real \<Rightarrow> bool" where
  \<comment> \<open>\<^verbatim>\<open>np.isclose(a,b)\<close> with numpy's defaults rtol=1e-5, atol=1e-8\<close>
  "isclose a b = (\<bar>a - b\<bar> \<le> 1 / 10 ^ 8 + (1 / 10 ^ 5) * \<bar>b\<bar>)"

definition iszero :: "real \<Rightarrow> bool" where
  \<comment> \<open>\<^verbatim>\<open>np.isclose(a,0.0,atol=1.0e-12,rtol=0.0)\<close>\<close>
  "iszero a = (\<bar>a - 0\<bar> \<le> 1 / 10 ^ 12 + 0 * \<bar>0\<bar>)"

definition isone :: "real \<Rightarrow> bool" where
  \<comment> \<open>\<^verbatim>\<open>np.isclose(a,1.0,atol=1.0e-7,rtol=0.0)\<close>\<close>
  "isone a = (\<bar>a - 1\<bar> \<le> 1 / 10 ^ 7 + 0 * \<bar>1\<bar>)"

definition clip :: "real \<Rightarrow> real \<Rightarrow> real \<Rightarrow> real" where
  \<comment> \<open>\<^verbatim>\<open>np.clip(x,lo,hi)\<close>\<close>
  "clip x lo hi = min hi (max lo x)"

section \<open>Vectors and matrices of fixed shape\<close>

type_synonym vec3 = "real \<times> real \<times> real"

type_synonym mat3 = "vec3 \<times> vec3 \<times> vec3"

fun dot3 :: "vec3 \<Rightarrow> vec3 \<Rightarrow> real" where
  \<comment> \<open>\<^verbatim>\<open>np.dot\<close> of two arrays of shape (3,)\<close>
  "dot3 (a0, a1, a2) (b0, b1, b2) = a0 * b0 + a1 * b1 + a2 * b2"

fun cross3 :: "vec3 \<Rightarrow> vec3 \<Rightarrow> vec3" where
  \<comment> \<open>\<^verbatim>\<open>np.cross\<close> of two arrays of shape (3,)\<close>
  "cross3 (a0, a1, a2) (b0, b1, b2) =
     (a1 * b2 - a2 * b1, a2 * b0 - a0 * b2, a0 * b1 - a1 * b0)"

fun scale3 :: "real \<Rightarrow> vec3 \<Rightarrow> vec3" where
  "scale3 c (a0, a1, a2) = (c * a0, c * a1, c * a2)"

fun add3 :: "vec3 \<Rightarrow> vec3 \<Rightarrow> vec3" where
  "add3 (a0, a1, a2) (b0, b1, b2) = (a0 + b0, a1 + b1, a2 + b2)"

definition norm3 :: "vec3 \<Rightarrow> real" where
  \<comment> \<open>\<^verbatim>\<open>np.linalg.norm\<close> of an array of shape (3,)\<close>
  "norm3 v = sqrt (dot3 v v)"

section \<open>Rotation kernel (rotation.py, class Rotation)\<close>

text \<open>
  A \<^verbatim>\<open>Rotation\<close> has the single slot \<^verbatim>\<open>quaternion\<close>, an array of four floats
  \<^verbatim>\<open>[q, p_1, p_2, p_3]\<close>. The constructor copies the array it is given, so every
  rotation object owns its array.
\<close>

datatype quaternion = Quat (q0: real) (q1: real) (q2: real) (q3: real)

definition quaternion_p :: "quaternion \<Rightarrow> vec3" where
  \<comment> \<open>\<^verbatim>\<open>quaternion[1:]\<close>\<close>
  "quaternion_p q = (q1 q, q2 q, q3 q)"

definition append_qp :: "real \<Rightarrow> vec3 \<Rightarrow> quaternion" where
  \<comment> \<open>\<^verbatim>\<open>np.append(q, p)\<close> of a scalar and an array of shape (3,)\<close>
  "append_qp q p = (case p of (p1, p2, p3) \<Rightarrow> Quat q p1 p2 p3)"

definition quaternion_norm :: "quaternion \<Rightarrow> real" where
  \<comment> \<open>\<^verbatim>\<open>np.linalg.norm(qu)\<close>\<close>
  "quaternion_norm q = sqrt ((q0 q)\<^sup>2 + (q1 q)\<^sup>2 + (q2 q)\<^sup>2 + (q3 q)\<^sup>2)"

definition unit_quaternion :: "quaternion \<Rightarrow> bool" where
  "unit_quaternion q = ((q0 q)\<^sup>2 + (q1 q)\<^sup>2 + (q2 q)\<^sup>2 + (q3 q)\<^sup>2 = 1)"

definition negated :: "quaternion \<Rightarrow> quaternion" where
  \<comment> \<open>the array after \<^verbatim>\<open>quaternion *= -1\<close>\<close>
  "negated q = Quat (- q0 q) (- q1 q) (- q2 q) (- q3 q)"

definition inverse_array :: "quaternion \<Rightarrow> quaternion" where
  \<comment> \<open>the array after \<^verbatim>\<open>quaternion[1:] *= -1\<close>, the body of \<^verbatim>\<open>Rotation.inverse\<close>\<close>
  "inverse_array q = Quat (q0 q) (- q1 q) (- q2 q) (- q3 q)"

definition standardize_array :: "quaternion \<Rightarrow> quaternion" where
  \<comment> \<open>the array after \<^verbatim>\<open>if quaternion[0] < 0.0: quaternion *= -1\<close>,
      the body of \<^verbatim>\<open>Rotation.standardize\<close>\<close>
  "standardize_array q = (if q0 q < 0 then negated q else q)"

subsection \<open>Rotation objects in a store\<close>

text \<open>
  \<^verbatim>\<open>inverse\<close> and \<^verbatim>\<open>standardize\<close> write into the array of the object they are called
  on and return that object; \<^verbatim>\<open>inversed\<close> and \<^verbatim>\<open>standardized\<close> call them on a copy.
  To tell the two apart the objects live in a store: a reference is a natural number and
  the store maps the allocated references to the arrays the objects own.
\<close>

type_synonym ref = nat

record store =
  objects :: "ref \<rightharpoonup> quaternion"
  next_ref :: ref

definition new_Rotation :: "store \<Rightarrow> quaternion \<Rightarrow> store \<times> ref" where
  \<comment> \<open>\<^verbatim>\<open>Rotation(quaternion)\<close>: a fresh object holding a copy of the array\<close>
  "new_Rotation s q =
     (s\<lparr>objects := (objects s)(next_ref s \<mapsto> q), next_ref := Suc (next_ref s)\<rparr>, next_ref s)"

definition Rotation_copy :: "store \<Rightarrow> ref \<Rightarrow> (store \<times> ref) option" where
  \<comment> \<open>\<^verbatim>\<open>__copy__\<close>: \<^verbatim>\<open>self.__class__(self.quaternion)\<close>; None when the reference is dangling\<close>
  "Rotation_copy s r = (case objects s r of None \<Rightarrow> None | Some q \<Rightarrow> Some (new_Rotation s q))"

definition Rotation_inverse :: "store \<Rightarrow> ref \<Rightarrow> (store \<times> ref) option" where
  \<comment> \<open>\<^verbatim>\<open>self.quaternion[1:] *= -1; return self\<close>\<close>
  "Rotation_inverse s r =
     (case objects s r of None \<Rightarrow> None
      | Some q \<Rightarrow> Some (s\<lparr>objects := (objects s)(r \<mapsto> inverse_array q)\<rparr>, r))"

definition Rotation_inversed :: "store \<Rightarrow> ref \<Rightarrow> (store \<times> ref) option" where
  \<comment> \<open>\<^verbatim>\<open>return self.copy().inverse()\<close>\<close>
  "Rotation_inversed s r = (case Rotation_copy s r of None \<Rightarrow> None | Some (s', c) \<Rightarrow> Rotation_inverse s' c)"

definition Rotation_standardize :: "store \<Rightarrow> ref \<Rightarrow> (store \<times> ref) option" where
  \<comment> \<open>\<^verbatim>\<open>if self.quaternion[0] < 0.0: self.quaternion*=-1; return self\<close>\<close>
  "Rotation_standardize s r =
     (case objects s r of None \<Rightarrow> None
      | Some q \<Rightarrow> Some (s\<lparr>objects := (objects s)(r \<mapsto> standardize_array q)\<rparr>, r))"

definition Rotation_standardized :: "store \<Rightarrow> ref \<Rightarrow> (store \<times> ref) option" where
  \<comment> \<open>\<^verbatim>\<open>return self.copy().standardize()\<close>\<close>
  "Rotation_standardized s r = (case Rotation_copy s r of None \<Rightarrow> None | Some (s', c) \<Rightarrow> Rotation_standardize s' c)"

subsection \<open>Observing the store\<close>

definition returned :: "(store \<times> ref) option \<Rightarrow> ref option" where
  \<comment> \<open>the object an operation returns\<close>
  "returned result = map_option snd result"

definition quaternion_after :: "(store \<times> ref) option \<Rightarrow> ref \<Rightarrow> quaternion option" where
  \<comment> \<open>the array of object \<open>r\<close> in the store an operation leaves behind\<close>
  "quaternion_after result r = (case result of None \<Rightarrow> None | Some (s', _) \<Rightarrow> objects s' r)"

subsection \<open>Values\<close>

text \<open>
  Where no object is shared, an operation is described by the array of the object it
  returns. \<^verbatim>\<open>q.inversed()\<close> returns a fresh object whose array is
  \<open>inverse_array\<close> of the array of \<^verbatim>\<open>q\<close>, and \<^verbatim>\<open>__mul__\<close> builds a fresh object
  \<^verbatim>\<open>R\<close> and returns \<^verbatim>\<open>R.standardize()\<close>.
\<close>

definition mul_Rotation :: "quaternion \<Rightarrow> quaternion \<Rightarrow> quaternion" where
  \<comment> \<open>\<^verbatim>\<open>__mul__\<close>, branch \<^verbatim>\<open>isinstance(other, Rotation)\<close>\<close>
  "mul_Rotation self other =
     (let self_q = q0 self;
          self_p = quaternion_p self;
          other_q = q0 other;
          other_p = quaternion_p other;
          R = append_qp (self_q * other_q - dot3 self_p other_p)
                (add3 (add3 (scale3 self_q other_p) (scale3 other_q self_p))
                      (scale3 P (cross3 self_p other_p)))
      in standardize_array R)"

definition mul_vector :: "quaternion \<Rightarrow> vec3 \<Rightarrow> vec3" where
  \<comment> \<open>\<^verbatim>\<open>__mul__\<close>, branch of a tuple or an array of shape (3,)\<close>
  "mul_vector self other =
     (case other of (o0, o1, o2) \<Rightarrow>
      let A = (q0 self)\<^sup>2 - dot3 (quaternion_p self) (quaternion_p self);
          B = 2 * (q1 self * o0 + q2 self * o1 + q3 self * o2);
          C = 2 * P * q0 self
      in (A * o0 + B * q1 self + C * (q2 self * o2 - q3 self * o1),
          A * o1 + B * q2 self + C * (q3 self * o0 - q1 self * o2),
          A * o2 + B * q3 self + C * (q1 self * o1 - q2 self * o0)))"

subsection \<open>Errors\<close>

text \<open>
  Every \<^verbatim>\<open>raise\<close> of the modelled code is a value of \<open>error\<close>, named after the place
  that raises it; \<open>exception_class\<close> gives the Python class of the exception.
\<close>

datatype error =
    Quaternion_negative \<comment> \<open>ValueError('Quaternion has negative first component.')\<close>
  | Quaternion_not_unit \<comment> \<open>ValueError('Quaternion is not of unit length.')\<close>
  | Eulers_out_of_range \<comment> \<open>ValueError('Euler angles outside of [0..2pi],[0..pi],[0..2pi].')\<close>
  | Matrix_not_proper \<comment> \<open>ValueError('matrix is not a proper rotation.')\<close>
  | Matrix_not_orthogonal \<comment> \<open>ValueError('matrix is not orthogonal.')\<close>
  | Not_a_Rodrigues_vector \<comment> \<open>ValueError('Input is not a Rodriques-Frank vector.')\<close>
  | Shapes_not_aligned \<comment> \<open>ValueError raised by \<^verbatim>\<open>np.dot\<close> on mismatched shapes\<close>
  | Relationship_unknown \<comment> \<open>KeyError('Orientation relationship "..." is unknown')\<close>
  | Relationship_unsupported \<comment> \<open>ValueError('Relationship "..." not supported for lattice "..."')\<close>
  | Different_symmetry \<comment> \<open>NotImplementedError('disorientation between different symmetry classes ...')\<close>
  | Rank4_not_implemented \<comment> \<open>the bare \<^verbatim>\<open>raise NotImplementedError\<close> of \<^verbatim>\<open>__mul__\<close>\<close>
  | Index_out_of_range \<comment> \<open>IndexError of an index past the end of an array\<close>
  | Empty_sequence \<comment> \<open>ValueError of \<^verbatim>\<open>argmax\<close> on an empty array\<close>
  | Pop_from_empty_set \<comment> \<open>KeyError('pop from an empty set')\<close>
  | Unbound_local \<comment> \<open>UnboundLocalError: a variable read before any loop iteration bound it\<close>

datatype py_exception = ValueError | KeyError | NotImplementedError | IndexError | UnboundLocalError

fun exception_class :: "error \<Rightarrow> py_exception" where
  "exception_class Relationship_unknown = KeyError"
| "exception_class Pop_from_empty_set = KeyError"
| "exception_class Different_symmetry = NotImplementedError"
| "exception_class Rank4_not_implemented = NotImplementedError"
| "exception_class Index_out_of_range = IndexError"
| "exception_class Unbound_local = UnboundLocalError"
| "exception_class _ = ValueError"

subsection \<open>Floats with the non-finite values\<close>

text \<open>
  A Rodrigues-Frank vector of a half turn carries \<^verbatim>\<open>np.inf\<close>, and scaling an axis with a
  zero component by it gives \<^verbatim>\<open>nan\<close>. Arrays that can hold such values are lists of
  \<open>xfloat\<close>; the operations follow IEEE 754 on the non-finite values and are exact on the
  finite ones.
\<close>

datatype xfloat = Fin real | PInf | MInf | NaN

fun xneg :: "xfloat \<Rightarrow> xfloat" where
  "xneg (Fin a) = Fin (- a)"
| "xneg PInf = MInf"
| "xneg MInf = PInf"
| "xneg NaN = NaN"

fun xabs :: "xfloat \<Rightarrow> xfloat" where
  "xabs (Fin a) = Fin \<bar>a\<bar>"
| "xabs PInf = PInf"
| "xabs MInf = PInf"
| "xabs NaN = NaN"

fun xadd :: "xfloat \<Rightarrow> xfloat \<Rightarrow> xfloat" where
  "xadd (Fin a) (Fin b) = Fin (a + b)"
| "xadd NaN _ = NaN"
| "xadd _ NaN = NaN"
| "xadd PInf MInf = NaN"
| "xadd MInf PInf = NaN"
| "xadd PInf _ = PInf"
| "xadd _ PInf = PInf"
| "xadd MInf _ = MInf"
| "xadd _ MInf = MInf"

definition xsub :: "xfloat \<Rightarrow> xfloat \<Rightarrow> xfloat" where
  "xsub a b = xadd a (xneg b)"

fun xsigned_inf :: "real \<Rightarrow> xfloat" where
  \<comment> \<open>the product of a finite value with positive infinity\<close>
  "xsigned_inf a = (if 0 < a then PInf else if a < 0 then MInf else NaN)"

fun xmul :: "xfloat \<Rightarrow> xfloat \<Rightarrow> xfloat" where
  "xmul (Fin a) (Fin b) = Fin (a * b)"
| "xmul NaN _ = NaN"
| "xmul _ NaN = NaN"
| "xmul (Fin a) PInf = xsigned_inf a"
| "xmul PInf (Fin a) = xsigned_inf a"
| "xmul (Fin a) MInf = xsigned_inf (- a)"
| "xmul MInf (Fin a) = xsigned_inf (- a)"
| "xmul PInf PInf = PInf"
| "xmul MInf MInf = PInf"
| "xmul PInf MInf = MInf"
| "xmul MInf PInf = MInf"

fun xle :: "xfloat \<Rightarrow> xfloat \<Rightarrow> bool" where
  \<comment> \<open>\<^verbatim>\<open>a <= b\<close>; every comparison with \<^verbatim>\<open>nan\<close> is false\<close>
  "xle (Fin a) (Fin b) = (a \<le> b)"
| "xle NaN _ = False"
| "xle _ NaN = False"
| "xle MInf _ = True"
| "xle _ PInf = True"
| "xle PInf _ = False"
| "xle _ MInf = False"

definition xge :: "xfloat \<Rightarrow> xfloat \<Rightarrow> bool" where
  \<comment> \<open>\<^verbatim>\<open>a >= b\<close>\<close>
  "xge a b = xle b a"

subsection \<open>Conversions between representations\<close>

definition eu2qu :: "vec3 \<Rightarrow> quaternion" where
  \<comment> \<open>Bunge-Euler angles to quaternion\<close>
  "eu2qu eu =
     (let ee = scale3 (1 / 2) eu;
          cPhi = cos (fst (snd ee));
          sPhi = sin (fst (snd ee));
          qu = Quat (cPhi * cos (fst ee + snd (snd ee)))
                    (- P * sPhi * cos (fst ee - snd (snd ee)))
                    (- P * sPhi * sin (fst ee - snd (snd ee)))
                    (- P * cPhi * sin (fst ee + snd (snd ee)))
      in if q0 qu < 0 then negated qu else qu)"

definition qu2ro :: "quaternion \<Rightarrow> xfloat list" where
  \<comment> \<open>quaternion to Rodrigues-Frank vector \<^verbatim>\<open>[n_1, n_2, n_3, tan(omega/2)]\<close>\<close>
  "qu2ro qu =
     (if iszero (q0 qu) then [Fin (q1 qu), Fin (q2 qu), Fin (q3 qu), PInf]
      else
        let s = norm3 (q1 qu, q2 qu, q3 qu)
        in if iszero s then [Fin 0, Fin 0, Fin P, Fin 0]
           else [Fin (q1 qu / s), Fin (q2 qu / s), Fin (q3 qu / s),
                 Fin (tan (arccos (clip (q0 qu) (- 1) 1)))])"

definition asRodrigues :: "quaternion \<Rightarrow> bool \<Rightarrow> xfloat list" where
  \<comment> \<open>\<^verbatim>\<open>asRodrigues(vector)\<close>: \<^verbatim>\<open>ro[:3]*ro[3] if vector else ro\<close>\<close>
  "asRodrigues qu vector =
     (let ro = qu2ro qu in if vector then map (\<lambda>n. xmul n (ro ! 3)) (take 3 ro) else ro)"

subsection \<open>Static constructors\<close>

definition fromQuaternion :: "quaternion \<Rightarrow> bool \<Rightarrow> real \<Rightarrow> error + quaternion" where
  \<comment> \<open>\<^verbatim>\<open>fromQuaternion(quaternion, acceptHomomorph, P)\<close>; the parameter \<^verbatim>\<open>P\<close> hides
      the module constant\<close>
  "fromQuaternion quaternion acceptHomomorph P' =
     (let qu = (if 0 < P' then inverse_array quaternion else quaternion);
          checked = (\<lambda>qu. if \<not> isclose (quaternion_norm qu) 1 then Inl Quaternion_not_unit
                          else Inr qu)
      in if q0 qu < 0
         then (if acceptHomomorph then checked (negated qu) else Inl Quaternion_negative)
         else checked qu)"

definition radians :: "real \<Rightarrow> real" where
  \<comment> \<open>\<^verbatim>\<open>np.radians\<close>\<close>
  "radians d = d * pi / 180"

definition fromEulers :: "vec3 \<Rightarrow> bool \<Rightarrow> error + quaternion" where
  \<comment> \<open>\<^verbatim>\<open>fromEulers(eulers, degrees)\<close> on an array of three angles\<close>
  "fromEulers eulers degrees =
     (let eu = (if degrees then (case eulers of (a, b, c) \<Rightarrow> (radians a, radians b, radians c))
                else eulers)
      in case eu of (eu0, eu1, eu2) \<Rightarrow>
           if (eu0 < 0 \<or> eu1 < 0 \<or> eu2 < 0) \<or> (eu0 > 2 * pi \<or> eu1 > 2 * pi \<or> eu2 > 2 * pi)
              \<or> eu1 > pi
           then Inl Eulers_out_of_range
           else Inr (eu2qu eu))"

subsection \<open>Rotation matrices\<close>

fun transpose3 :: "mat3 \<Rightarrow> mat3" where
  \<comment> \<open>\<^verbatim>\<open>om.T\<close>\<close>
  "transpose3 ((a00, a01, a02), (a10, a11, a12), (a20, a21, a22)) =
     ((a00, a10, a20), (a01, a11, a21), (a02, a12, a22))"

fun matvec3 :: "mat3 \<Rightarrow> vec3 \<Rightarrow> vec3" where
  \<comment> \<open>\<^verbatim>\<open>np.dot\<close> of shapes (3,3) and (3,)\<close>
  "matvec3 (r0, r1, r2) v = (dot3 r0 v, dot3 r1 v, dot3 r2 v)"

definition matmul3 :: "mat3 \<Rightarrow> mat3 \<Rightarrow> mat3" where
  \<comment> \<open>\<^verbatim>\<open>np.dot\<close> of shapes (3,3) and (3,3)\<close>
  "matmul3 a b =
     (case (a, transpose3 b) of ((r0, r1, r2), (c0, c1, c2)) \<Rightarrow>
       ((dot3 r0 c0, dot3 r0 c1, dot3 r0 c2),
        (dot3 r1 c0, dot3 r1 c1, dot3 r1 c2),
        (dot3 r2 c0, dot3 r2 c1, dot3 r2 c2)))"

fun det3 :: "mat3 \<Rightarrow> real" where
  \<comment> \<open>\<^verbatim>\<open>np.linalg.det\<close> of shape (3,3)\<close>
  "det3 (r0, r1, r2) = dot3 r0 (cross3 r1 r2)"

definition qu2om :: "quaternion \<Rightarrow> mat3" where
  \<comment> \<open>quaternion to rotation matrix\<close>
  "qu2om qu =
     (let qq = (q0 qu)\<^sup>2 - ((q1 qu)\<^sup>2 + (q2 qu)\<^sup>2 + (q3 qu)\<^sup>2);
          om = ((qq + 2 * (q1 qu)\<^sup>2, 2 * (q1 qu * q2 qu - q0 qu * q3 qu),
                   2 * (q1 qu * q3 qu + q0 qu * q2 qu)),
                (2 * (q2 qu * q1 qu + q0 qu * q3 qu), qq + 2 * (q2 qu)\<^sup>2,
                   2 * (q2 qu * q3 qu - q0 qu * q1 qu)),
                (2 * (q3 qu * q1 qu - q0 qu * q2 qu), 2 * (q3 qu * q2 qu + q0 qu * q1 qu),
                   qq + 2 * (q3 qu)\<^sup>2))
      in if 0 < P then om else transpose3 om)"

definition arctan2 :: "real \<Rightarrow> real \<Rightarrow> real" where
  \<comment> \<open>\<^verbatim>\<open>np.arctan2(y,x)\<close>, the angle of the point (x,y) in (-pi,pi]; 0 at the origin\<close>
  "arctan2 y x =
     (if 0 < x then arctan (y / x)
      else if x < 0 then (if 0 \<le> y then arctan (y / x) + pi else arctan (y / x) - pi)
      else if 0 < y then pi / 2
      else if y < 0 then - pi / 2
      else 0)"

definition fmod :: "real \<Rightarrow> real \<Rightarrow> real" where
  \<comment> \<open>\<^verbatim>\<open>a % m\<close> on floats: the remainder has the sign of the divisor\<close>
  "fmod a m = a - m * of_int \<lfloor>a / m\<rfloor>"

definition reduce_eu :: "vec3 \<Rightarrow> vec3" where
  \<comment> \<open>\<^verbatim>\<open>np.where(eu<0, (eu+2.0*np.pi)%np.array([2.0*np.pi,np.pi,2.0*np.pi]),eu)\<close>\<close>
  "reduce_eu eu =
     (case eu of (e0, e1, e2) \<Rightarrow>
       (if e0 < 0 then fmod (e0 + 2 * pi) (2 * pi) else e0,
        if e1 < 0 then fmod (e1 + 2 * pi) pi else e1,
        if e2 < 0 then fmod (e2 + 2 * pi) (2 * pi) else e2))"

definition om2eu :: "mat3 \<Rightarrow> vec3" where
  \<comment> \<open>rotation matrix to Bunge-Euler angles\<close>
  "om2eu om =
     (case om of ((om00, om01, om02), (om10, om11, om12), (om20, om21, om22)) \<Rightarrow>
       let eu =
         (if \<bar>om22\<bar> < 1
          then let zeta = 1 / sqrt (1 - om22\<^sup>2)
               in (arctan2 (om20 * zeta) (- om21 * zeta),
                   arccos om22,
                   arctan2 (om02 * zeta) (om12 * zeta))
          else (arctan2 om01 om00, pi * (1 / 2) * (1 - om22), 0))
       in reduce_eu eu)"

definition om2qu :: "mat3 \<Rightarrow> quaternion" where
  \<comment> \<open>rotation matrix to quaternion: \<^verbatim>\<open>eu2qu(om2eu(om))\<close>\<close>
  "om2qu om = eu2qu (om2eu om)"

definition fromMatrix :: "mat3 \<Rightarrow> error + quaternion" where
  \<comment> \<open>\<^verbatim>\<open>fromMatrix(om)\<close>, that is \<^verbatim>\<open>fromBasis(om)\<close> with its defaults
      \<^verbatim>\<open>orthonormal=True, reciprocal=False\<close>, under which the inverse and the singular
      value decomposition are skipped\<close>
  "fromMatrix om =
     (case om of (om0, om1, om2) \<Rightarrow>
       if \<not> isclose (det3 om) 1 then Inl Matrix_not_proper
       else if \<not> isclose (dot3 om0 om1) 0 \<or> \<not> isclose (dot3 om1 om2) 0
               \<or> \<not> isclose (dot3 om2 om0) 0
       then Inl Matrix_not_orthogonal
       else Inr (om2qu om))"

subsection \<open>Proper rotation matrices\<close>

definition orthonormal_rows :: "mat3 \<Rightarrow> bool" where
  \<comment> \<open>the rows are of unit length and perpendicular to each other\<close>
  "orthonormal_rows m =
     (case m of (r0, r1, r2) \<Rightarrow>
        dot3 r0 r0 = 1 \<and> dot3 r1 r1 = 1 \<and> dot3 r2 r2 = 1 \<and>
        dot3 r0 r1 = 0 \<and> dot3 r1 r2 = 0 \<and> dot3 r2 r0 = 0)"

definition proper_rotation :: "mat3 \<Rightarrow> bool" where
  \<comment> \<open>rows and columns are orthonormal and the determinant is 1\<close>
  "proper_rotation m =
     (orthonormal_rows m \<and> orthonormal_rows (transpose3 m) \<and> det3 m = 1)"

subsection \<open>Multiplication\<close>

text \<open>
  \<^verbatim>\<open>__mul__\<close> dispatches on what it is given: a rotation, a tuple or an array of shape
  (3,), an array of shape (3,3), an array of shape (3,3,3,3), or anything else, for which
  it returns the value \<^verbatim>\<open>NotImplemented\<close>.
\<close>

datatype operand =
    Op_Rotation quaternion | Op_vector vec3 | Op_matrix mat3 | Op_rank4 | Op_other

datatype product =
    Pr_Rotation quaternion | Pr_vector vec3 | Pr_matrix mat3 | Pr_NotImplemented

fun mul :: "quaternion \<Rightarrow> operand \<Rightarrow> error + product" where
  "mul self (Op_Rotation other) = Inr (Pr_Rotation (mul_Rotation self other))"
| "mul self (Op_vector other) = Inr (Pr_vector (mul_vector self other))"
| "mul self (Op_matrix other) =
     Inr (Pr_matrix (matmul3 (qu2om self) (matmul3 other (transpose3 (qu2om self)))))"
| "mul self Op_rank4 = Inl Rank4_not_implemented"
| "mul self Op_other = Inr Pr_NotImplemented"

subsection \<open>Averaging\<close>

definition quaternion_list :: "quaternion \<Rightarrow> real list" where
  "quaternion_list q = [q0 q, q1 q, q2 q, q3 q]"

definition asM :: "quaternion \<Rightarrow> real list list" where
  \<comment> \<open>\<^verbatim>\<open>np.outer(self.quaternion,self.quaternion)\<close>\<close>
  "asM q = map (\<lambda>a. map (\<lambda>b. a * b) (quaternion_list q)) (quaternion_list q)"

definition matrix_times :: "real list list \<Rightarrow> real \<Rightarrow> real list list" where
  \<comment> \<open>\<^verbatim>\<open>M * n\<close>\<close>
  "matrix_times M n = map (map (\<lambda>a. a * n)) M"

definition matrix_plus :: "real list list \<Rightarrow> real list list \<Rightarrow> real list list" where
  \<comment> \<open>\<^verbatim>\<open>M + M'\<close> of two arrays of the same shape\<close>
  "matrix_plus M M' = map2 (map2 (+)) M M'"

definition matrix_over :: "real list list \<Rightarrow> real \<Rightarrow> real list list" where
  \<comment> \<open>\<^verbatim>\<open>M / N\<close>\<close>
  "matrix_over M n = map (map (\<lambda>a. a / n)) M"

fun accumulate_M :: "real list list option \<Rightarrow> (quaternion \<times> real) list \<Rightarrow> real list list option"
  where
  \<comment> \<open>the loop over \<^verbatim>\<open>zip(rotations,weights)\<close>; \<^verbatim>\<open>M\<close> is unbound until the first pass\<close>
  "accumulate_M M [] = M"
| "accumulate_M None ((r, n) # rest) = accumulate_M (Some (matrix_times (asM r) n)) rest"
| "accumulate_M (Some M) ((r, n) # rest) =
     accumulate_M (Some (matrix_plus M (matrix_times (asM r) n))) rest"

fun argmax_from :: "nat \<Rightarrow> real \<Rightarrow> nat \<Rightarrow> real list \<Rightarrow> nat" where
  \<comment> \<open>best index and value so far, index of the next element, the remaining elements\<close>
  "argmax_from k best i [] = k"
| "argmax_from k best i (x # xs) =
     (if best < x then argmax_from i x (Suc i) xs else argmax_from k best (Suc i) xs)"

definition argmax :: "real list \<Rightarrow> error + nat" where
  \<comment> \<open>\<^verbatim>\<open>argmax()\<close>: the first index of the largest element\<close>
  "argmax xs = (case xs of [] \<Rightarrow> Inl Empty_sequence | x # rest \<Rightarrow> Inr (argmax_from 0 x 1 rest))"

text \<open>
  \<^verbatim>\<open>np.linalg.eig\<close> belongs to numpy. It is a parameter \<open>eig\<close> of the model that gives,
  for a matrix, the array of eigenvalues and the list of the columns of the eigenvector
  matrix, so that the k-th entry of the list is \<^verbatim>\<open>vec.T[k]\<close>. The matrices averaged here
  are symmetric, so the eigenvalues and eigenvectors are real and \<^verbatim>\<open>np.real\<close> changes
  nothing.
\<close>

definition Rotation_fromAverage ::
  "(real list list \<Rightarrow> real list \<times> quaternion list) \<Rightarrow> quaternion list \<Rightarrow> real list
     \<Rightarrow> error + quaternion" where
  \<comment> \<open>\<^verbatim>\<open>Rotation.fromAverage(rotations, weights)\<close>\<close>
  "Rotation_fromAverage eig rotations weights =
     (let N = length rotations;
          weights = (if weights = [] then replicate N 1 else weights)
      in case accumulate_M None (zip rotations weights) of
           None \<Rightarrow> Inl Unbound_local
         | Some M \<Rightarrow>
             (case eig (matrix_over M (real N)) of (eigvals, vecT) \<Rightarrow>
               (case argmax eigvals of
                  Inl e \<Rightarrow> Inl e
                | Inr k \<Rightarrow>
                    if k < length vecT then fromQuaternion (vecT ! k) True (- 1)
                    else Inl Index_out_of_range)))"

text \<open>
  What numpy documents of \<^verbatim>\<open>eig\<close> for a 4 by 4 matrix: four eigenvalues, each repeated
  according to its multiplicity (so that they add up to the trace), and for each of them a
  column of unit length that the matrix maps to its multiple by that eigenvalue.
\<close>

definition matrix_apply :: "real list list \<Rightarrow> quaternion \<Rightarrow> real list" where
  "matrix_apply M v = map (\<lambda>row. sum_list (map2 (*) row (quaternion_list v))) M"

definition trace :: "real list list \<Rightarrow> real" where
  "trace M = sum_list (map (\<lambda>i. M ! i ! i) [0..<length M])"

definition eig_documented :: "real list list \<Rightarrow> real list \<times> quaternion list \<Rightarrow> bool" where
  "eig_documented M r =
     (case r of (eigvals, vecT) \<Rightarrow>
        length eigvals = 4 \<and> length vecT = 4 \<and> sum_list eigvals = trace M \<and>
        list_all (\<lambda>(w, v). matrix_apply M v = map (\<lambda>a. w * a) (quaternion_list v)
                            \<and> unit_quaternion v) (zip eigvals vecT))"

section \<open>Symmetry group (rotation.py, class Symmetry)\<close>

text \<open>
  The attribute \<^verbatim>\<open>lattice\<close> of a \<^verbatim>\<open>Symmetry\<close> is one of
  \<^verbatim>\<open>[None,'orthorhombic','tetragonal','hexagonal','cubic']\<close>; the constructor refuses
  every other label.
\<close>

datatype Symmetry = Sym_None | orthorhombic | tetragonal | hexagonal | cubic

fun symQuats :: "Symmetry \<Rightarrow> quaternion list" where
  "symQuats cubic =
      [Quat 1 0 0 0,
       Quat 0 1 0 0,
       Quat 0 0 1 0,
       Quat 0 0 0 1,
       Quat 0 0 (1 / 2 * sqrt 2) (1 / 2 * sqrt 2),
       Quat 0 0 (1 / 2 * sqrt 2) (- (1 / 2 * sqrt 2)),
       Quat 0 (1 / 2 * sqrt 2) 0 (1 / 2 * sqrt 2),
       Quat 0 (1 / 2 * sqrt 2) 0 (- (1 / 2 * sqrt 2)),
       Quat 0 (1 / 2 * sqrt 2) (- (1 / 2 * sqrt 2)) 0,
       Quat 0 (- (1 / 2 * sqrt 2)) (- (1 / 2 * sqrt 2)) 0,
       Quat (1 / 2) (1 / 2) (1 / 2) (1 / 2),
       Quat (- (1 / 2)) (1 / 2) (1 / 2) (1 / 2),
       Quat (- (1 / 2)) (1 / 2) (1 / 2) (- (1 / 2)),
       Quat (- (1 / 2)) (1 / 2) (- (1 / 2)) (1 / 2),
       Quat (- (1 / 2)) (- (1 / 2)) (1 / 2) (1 / 2),
       Quat (- (1 / 2)) (- (1 / 2)) (1 / 2) (- (1 / 2)),
       Quat (- (1 / 2)) (- (1 / 2)) (- (1 / 2)) (1 / 2),
       Quat (- (1 / 2)) (1 / 2) (- (1 / 2)) (- (1 / 2)),
       Quat (- (1 / 2 * sqrt 2)) 0 0 (1 / 2 * sqrt 2),
       Quat (1 / 2 * sqrt 2) 0 0 (1 / 2 * sqrt 2),
       Quat (- (1 / 2 * sqrt 2)) 0 (1 / 2 * sqrt 2) 0,
       Quat (- (1 / 2 * sqrt 2)) 0 (- (1 / 2 * sqrt 2)) 0,
       Quat (- (1 / 2 * sqrt 2)) (1 / 2 * sqrt 2) 0 0,
       Quat (- (1 / 2 * sqrt 2)) (- (1 / 2 * sqrt 2)) 0 0]"
| "symQuats hexagonal =
      [Quat 1 0 0 0,
       Quat (- (1 / 2 * sqrt 3)) 0 0 (- (1 / 2)),
       Quat (1 / 2) 0 0 (1 / 2 * sqrt 3),
       Quat 0 0 0 1,
       Quat (- (1 / 2)) 0 0 (1 / 2 * sqrt 3),
       Quat (- (1 / 2 * sqrt 3)) 0 0 (1 / 2),
       Quat 0 1 0 0,
       Quat 0 (- (1 / 2 * sqrt 3)) (1 / 2) 0,
       Quat 0 (1 / 2) (- (1 / 2 * sqrt 3)) 0,
       Quat 0 0 1 0,
       Quat 0 (- (1 / 2)) (- (1 / 2 * sqrt 3)) 0,
       Quat 0 (1 / 2 * sqrt 3) (1 / 2) 0]"
| "symQuats tetragonal =
      [Quat 1 0 0 0,
       Quat 0 1 0 0,
       Quat 0 0 1 0,
       Quat 0 0 0 1,
       Quat 0 (1 / 2 * sqrt 2) (1 / 2 * sqrt 2) 0,
       Quat 0 (- (1 / 2 * sqrt 2)) (1 / 2 * sqrt 2) 0,
       Quat (1 / 2 * sqrt 2) 0 0 (1 / 2 * sqrt 2),
       Quat (- (1 / 2 * sqrt 2)) 0 0 (1 / 2 * sqrt 2)]"
| "symQuats orthorhombic =
      [Quat 1 0 0 0,
       Quat 0 1 0 0,
       Quat 0 0 1 0,
       Quat 0 0 0 1]"
| "symQuats Sym_None =
      [Quat 1 0 0 0]"

definition symmetryOperations :: "Symmetry \<Rightarrow> quaternion list" where
  \<comment> \<open>\<^verbatim>\<open>symmetryOperations()\<close> called without members: every operator, in table order\<close>
  "symmetryOperations symm = symQuats symm"

definition inFZ :: "Symmetry \<Rightarrow> xfloat list \<Rightarrow> error + bool" where
  \<comment> \<open>\<^verbatim>\<open>Symmetry.inFZ(rodrigues)\<close>\<close>
  "inFZ symm rodrigues =
     (if length rodrigues \<noteq> 3 then Inl Not_a_Rodrigues_vector
      else if list_ex (\<lambda>r. r = PInf) rodrigues then Inr False
      else
        let Rabs = map xabs rodrigues
        in case symm of
             cubic \<Rightarrow>
               Inr (xge (Fin (sqrt 2 - 1)) (Rabs ! 0)
                    \<and> xge (Fin (sqrt 2 - 1)) (Rabs ! 1)
                    \<and> xge (Fin (sqrt 2 - 1)) (Rabs ! 2)
                    \<and> xge (Fin 1) (xadd (xadd (Rabs ! 0) (Rabs ! 1)) (Rabs ! 2)))
           | hexagonal \<Rightarrow>
               Inr (xge (Fin 1) (Rabs ! 0) \<and> xge (Fin 1) (Rabs ! 1) \<and> xge (Fin 1) (Rabs ! 2)
                    \<and> xge (Fin 2) (xadd (xmul (Fin (sqrt 3)) (Rabs ! 0)) (Rabs ! 1))
                    \<and> xge (Fin 2) (xadd (xmul (Fin (sqrt 3)) (Rabs ! 1)) (Rabs ! 0))
                    \<and> xge (Fin 2) (xadd (Fin (sqrt 3)) (Rabs ! 2)))
           | tetragonal \<Rightarrow>
               Inr (xge (Fin 1) (Rabs ! 0) \<and> xge (Fin 1) (Rabs ! 1)
                    \<and> xge (Fin (sqrt 2)) (xadd (Rabs ! 0) (Rabs ! 1))
                    \<and> xge (Fin (sqrt 2)) (xadd (Rabs ! 2) (Fin 1)))
           | orthorhombic \<Rightarrow>
               Inr (xge (Fin 1) (Rabs ! 0) \<and> xge (Fin 1) (Rabs ! 1) \<and> xge (Fin 1) (Rabs ! 2))
           | Sym_None \<Rightarrow> Inr True)"

definition inDisorientationSST :: "Symmetry \<Rightarrow> xfloat list \<Rightarrow> error + bool" where
  \<comment> \<open>\<^verbatim>\<open>Symmetry.inDisorientationSST(rodrigues)\<close>\<close>
  "inDisorientationSST symm rodrigues =
     (if length rodrigues \<noteq> 3 then Inl Not_a_Rodrigues_vector
      else
        let R = rodrigues; epsilon = Fin 0
        in case symm of
             cubic \<Rightarrow>
               Inr (xge (R ! 0) (xadd (R ! 1) epsilon) \<and> xge (R ! 1) (xadd (R ! 2) epsilon)
                    \<and> xge (R ! 2) epsilon)
           | hexagonal \<Rightarrow>
               Inr (xge (R ! 0) (xmul (Fin (sqrt 3)) (xsub (R ! 1) epsilon))
                    \<and> xge (R ! 1) epsilon \<and> xge (R ! 2) epsilon)
           | tetragonal \<Rightarrow>
               Inr (xge (R ! 0) (xsub (R ! 1) epsilon) \<and> xge (R ! 1) epsilon
                    \<and> xge (R ! 2) epsilon)
           | orthorhombic \<Rightarrow>
               Inr (xge (R ! 0) epsilon \<and> xge (R ! 1) epsilon \<and> xge (R ! 2) epsilon)
           | Sym_None \<Rightarrow> Inr True)"

subsection \<open>Standard stereographic triangle\<close>

fun basis :: "Symmetry \<Rightarrow> (mat3 \<times> mat3) option" where
  \<comment> \<open>the pair \<^verbatim>\<open>(basis['improper'], basis['proper'])\<close>; None for the unspecified symmetry\<close>
  "basis cubic =
     Some (((- 1, 0, 1), (sqrt 2, - sqrt 2, 0), (0, sqrt 3, 0)),
           ((0, - 1, 1), (- sqrt 2, sqrt 2, 0), (sqrt 3, 0, 0)))"
| "basis hexagonal =
     Some (((0, 0, 1), (1, - sqrt 3, 0), (0, 2, 0)),
           ((0, 0, 1), (- 1, sqrt 3, 0), (sqrt 3, - 1, 0)))"
| "basis tetragonal =
     Some (((0, 0, 1), (1, - 1, 0), (0, sqrt 2, 0)),
           ((0, 0, 1), (- 1, 1, 0), (sqrt 2, 0, 0)))"
| "basis orthorhombic =
     Some (((0, 0, 1), (1, 0, 0), (0, 1, 0)),
           ((0, 0, 1), (- 1, 0, 0), (0, 1, 0)))"
| "basis Sym_None = None"

definition rint :: "real \<Rightarrow> int" where
  \<comment> \<open>rounding to the nearest integer, a tie to the even one\<close>
  "rint x =
     (let f = \<lfloor>x\<rfloor>; d = x - of_int f
      in if d < 1 / 2 then f else if 1 / 2 < d then f + 1 else if even f then f else f + 1)"

definition around12 :: "real \<Rightarrow> real" where
  \<comment> \<open>\<^verbatim>\<open>np.around(x,12)\<close>\<close>
  "around12 x = of_int (rint (x * 10 ^ 12)) / 10 ^ 12"

definition components :: "mat3 \<Rightarrow> real list \<Rightarrow> error + vec3" where
  \<comment> \<open>\<^verbatim>\<open>np.around(np.dot(basis,v),12)\<close>; \<^verbatim>\<open>np.dot\<close> refuses a vector that has not
      three entries\<close>
  "components b v =
     (case v of
        [v0, v1, v2] \<Rightarrow>
          (case matvec3 b (v0, v1, v2) of (c0, c1, c2) \<Rightarrow>
             Inr (around12 c0, around12 c1, around12 c2))
      | _ \<Rightarrow> Inl Shapes_not_aligned)"

fun all_nonnegative :: "vec3 \<Rightarrow> bool" where
  \<comment> \<open>\<^verbatim>\<open>np.all(theComponents >= 0.0)\<close>\<close>
  "all_nonnegative (c0, c1, c2) = (0 \<le> c0 \<and> 0 \<le> c1 \<and> 0 \<le> c2)"

definition rgb_of :: "vec3 \<Rightarrow> xfloat list" where
  \<comment> \<open>the colour of components inside the triangle; a zero vector divides 0 by 0\<close>
  "rgb_of theComponents =
     (if norm3 theComponents = 0 then [NaN, NaN, NaN]
      else
        case theComponents of (c0, c1, c2) \<Rightarrow>
          let n = norm3 theComponents;
              rgb = [sqrt (c0 / n), sqrt (c1 / n), sqrt (c2 / n)];
              rgb = map (min 1) rgb;
              m = max (rgb ! 0) (max (rgb ! 1) (rgb ! 2))
          in map (\<lambda>c. Fin (c / m)) rgb)"

datatype sst_result = SST_bool bool | SST_color bool "xfloat list"

definition sst_components :: "mat3 \<Rightarrow> mat3 \<Rightarrow> real list \<Rightarrow> bool \<Rightarrow> error + vec3 \<times> bool"
  where
  \<comment> \<open>the pair \<^verbatim>\<open>(theComponents, inSST)\<close> after the branch on \<^verbatim>\<open>proper\<close>\<close>
  "sst_components improper proper_basis v proper =
     (if proper
      then (case components improper v of
              Inl e \<Rightarrow> Inl e
            | Inr theComponents \<Rightarrow>
                (if all_nonnegative theComponents then Inr (theComponents, True)
                 else (case components proper_basis v of
                         Inl e \<Rightarrow> Inl e
                       | Inr theComponents \<Rightarrow>
                           Inr (theComponents, all_nonnegative theComponents))))
      else (if length v < 3 then Inl Index_out_of_range
            else (case components improper (v[2 := \<bar>v ! 2\<bar>]) of
                    Inl e \<Rightarrow> Inl e
                  | Inr theComponents \<Rightarrow>
                      Inr (theComponents, all_nonnegative theComponents))))"

definition inSST :: "Symmetry \<Rightarrow> real list \<Rightarrow> bool \<Rightarrow> bool \<Rightarrow> error + sst_result" where
  \<comment> \<open>\<^verbatim>\<open>Symmetry.inSST(vector, proper, color)\<close>\<close>
  "inSST symm vector proper color =
     (case basis symm of
        None \<Rightarrow>
          (if color then Inr (SST_color True [Fin 0, Fin 0, Fin 0]) else Inr (SST_bool True))
      | Some (improper, proper_basis) \<Rightarrow>
          (case sst_components improper proper_basis vector proper of
             Inl e \<Rightarrow> Inl e
           | Inr (theComponents, inside) \<Rightarrow>
               (if color
                then Inr (SST_color inside
                            (if inside then rgb_of theComponents else [Fin 0, Fin 0, Fin 0]))
                else Inr (SST_bool inside))))"

section \<open>Lattice and orientation relationships (rotation.py, class Lattice)\<close>

text \<open>
  A \<^verbatim>\<open>Lattice\<close> is made from one of the keys of \<^verbatim>\<open>Lattice.lattices\<close>; the constructor
  raises on any other name. It carries the name and the symmetry that belongs to it.
\<close>

datatype Lattice = triclinic | bct | hex | fcc | bcc

fun symmetry :: "Lattice \<Rightarrow> Symmetry" where
  "symmetry triclinic = Sym_None"
| "symmetry bct = tetragonal"
| "symmetry hex = hexagonal"
| "symmetry fcc = cubic"
| "symmetry bcc = cubic"

record relationship =
  mapping :: "(Lattice \<times> nat) list"
  planes :: "vec3 list list"
  directions :: "vec3 list list"

definition KS_planes :: "vec3 list list" where
  "KS_planes =
     [[(1, 1, 1), (0, 1, 1)],
      [(1, 1, 1), (0, 1, 1)],
      [(1, 1, 1), (0, 1, 1)],
      [(1, 1, 1), (0, 1, 1)],
      [(1, 1, 1), (0, 1, 1)],
      [(1, 1, 1), (0, 1, 1)],
      [(1, - 1, 1), (0, 1, 1)],
      [(1, - 1, 1), (0, 1, 1)],
      [(1, - 1, 1), (0, 1, 1)],
      [(1, - 1, 1), (0, 1, 1)],
      [(1, - 1, 1), (0, 1, 1)],
      [(1, - 1, 1), (0, 1, 1)],
      [(- 1, 1, 1), (0, 1, 1)],
      [(- 1, 1, 1), (0, 1, 1)],
      [(- 1, 1, 1), (0, 1, 1)],
      [(- 1, 1, 1), (0, 1, 1)],
      [(- 1, 1, 1), (0, 1, 1)],
      [(- 1, 1, 1), (0, 1, 1)],
      [(1, 1, - 1), (0, 1, 1)],
      [(1, 1, - 1), (0, 1, 1)],
      [(1, 1, - 1), (0, 1, 1)],
      [(1, 1, - 1), (0, 1, 1)],
      [(1, 1, - 1), (0, 1, 1)],
      [(1, 1, - 1), (0, 1, 1)]]"

definition KS_directions :: "vec3 list list" where
  "KS_directions =
     [[(- 1, 0, 1), (- 1, - 1, 1)],
      [(- 1, 0, 1), (- 1, 1, - 1)],
      [(0, 1, - 1), (- 1, - 1, 1)],
      [(0, 1, - 1), (- 1, 1, - 1)],
      [(1, - 1, 0), (- 1, - 1, 1)],
      [(1, - 1, 0), (- 1, 1, - 1)],
      [(1, 0, - 1), (- 1, - 1, 1)],
      [(1, 0, - 1), (- 1, 1, - 1)],
      [(- 1, - 1, 0), (- 1, - 1, 1)],
      [(- 1, - 1, 0), (- 1, 1, - 1)],
      [(0, 1, 1), (- 1, - 1, 1)],
      [(0, 1, 1), (- 1, 1, - 1)],
      [(0, - 1, 1), (- 1, - 1, 1)],
      [(0, - 1, 1), (- 1, 1, - 1)],
      [(- 1, 0, - 1), (- 1, - 1, 1)],
      [(- 1, 0, - 1), (- 1, 1, - 1)],
      [(1, 1, 0), (- 1, - 1, 1)],
      [(1, 1, 0), (- 1, 1, - 1)],
      [(- 1, 1, 0), (- 1, - 1, 1)],
      [(- 1, 1, 0), (- 1, 1, - 1)],
      [(0, - 1, - 1), (- 1, - 1, 1)],
      [(0, - 1, - 1), (- 1, 1, - 1)],
      [(1, 0, 1), (- 1, - 1, 1)],
      [(1, 0, 1), (- 1, 1, - 1)]]"

definition KS :: relationship where
  \<comment> \<open>Kurdjomov--Sachs orientation relationship for fcc <-> bcc transformation\<close>
  "KS = \<lparr>mapping = [(fcc, 0), (bcc, 1)], planes = KS_planes, directions = KS_directions\<rparr>"

definition GT_planes :: "vec3 list list" where
  "GT_planes =
     [[(1, 1, 1), (1, 0, 1)],
      [(1, 1, 1), (1, 1, 0)],
      [(1, 1, 1), (0, 1, 1)],
      [(- 1, - 1, 1), (- 1, 0, 1)],
      [(- 1, - 1, 1), (- 1, - 1, 0)],
      [(- 1, - 1, 1), (0, - 1, 1)],
      [(- 1, 1, 1), (- 1, 0, 1)],
      [(- 1, 1, 1), (- 1, 1, 0)],
      [(- 1, 1, 1), (0, 1, 1)],
      [(1, - 1, 1), (1, 0, 1)],
      [(1, - 1, 1), (1, - 1, 0)],
      [(1, - 1, 1), (0, - 1, 1)],
      [(1, 1, 1), (1, 1, 0)],
      [(1, 1, 1), (0, 1, 1)],
      [(1, 1, 1), (1, 0, 1)],
      [(- 1, - 1, 1), (- 1, - 1, 0)],
      [(- 1, - 1, 1), (0, - 1, 1)],
      [(- 1, - 1, 1), (- 1, 0, 1)],
      [(- 1, 1, 1), (- 1, 1, 0)],
      [(- 1, 1, 1), (0, 1, 1)],
      [(- 1, 1, 1), (- 1, 0, 1)],
      [(1, - 1, 1), (1, - 1, 0)],
      [(1, - 1, 1), (0, - 1, 1)],
      [(1, - 1, 1), (1, 0, 1)]]"

definition GT_directions :: "vec3 list list" where
  "GT_directions =
     [[(- 5, - 12, 17), (- 17, - 7, 17)],
      [(17, - 5, - 12), (17, - 17, - 7)],
      [(- 12, 17, - 5), (- 7, 17, - 17)],
      [(5, 12, 17), (17, 7, 17)],
      [(- 17, 5, - 12), (- 17, 17, - 7)],
      [(12, - 17, - 5), (7, - 17, - 17)],
      [(- 5, 12, - 17), (- 17, 7, - 17)],
      [(17, 5, 12), (17, 17, 7)],
      [(- 12, - 17, 5), (- 7, - 17, 17)],
      [(5, - 12, - 17), (17, - 7, - 17)],
      [(- 17, - 5, 12), (- 17, - 17, 7)],
      [(12, 17, 5), (7, 17, 17)],
      [(- 5, 17, - 12), (- 17, 17, - 7)],
      [(- 12, - 5, 17), (- 7, - 17, 17)],
      [(17, - 12, - 5), (17, - 7, - 17)],
      [(5, - 17, - 12), (17, - 17, - 7)],
      [(12, 5, 17), (7, 17, 17)],
      [(- 17, 12, - 5), (- 17, 7, - 17)],
      [(- 5, - 17, 12), (- 17, - 17, 7)],
      [(- 12, 5, - 17), (- 7, 17, - 17)],
      [(17, 12, 5), (17, 7, 17)],
      [(5, 17, 12), (17, 17, 7)],
      [(12, - 5, - 17), (7, - 17, - 17)],
      [(- 17, - 12, 5), (- 17, - 7, 17)]]"

definition GT :: relationship where
  \<comment> \<open>Greninger--Troiano orientation relationship for fcc <-> bcc transformation\<close>
  "GT = \<lparr>mapping = [(fcc, 0), (bcc, 1)], planes = GT_planes, directions = GT_directions\<rparr>"

definition GTprime_planes :: "vec3 list list" where
  "GTprime_planes =
     [[(7, 17, 17), (12, 5, 17)],
      [(17, 7, 17), (17, 12, 5)],
      [(17, 17, 7), (5, 17, 12)],
      [(- 7, - 17, 17), (- 12, - 5, 17)],
      [(- 17, - 7, 17), (- 17, - 12, 5)],
      [(- 17, - 17, 7), (- 5, - 17, 12)],
      [(7, - 17, - 17), (12, - 5, - 17)],
      [(17, - 7, - 17), (17, - 12, - 5)],
      [(17, - 17, - 7), (5, - 17, - 12)],
      [(- 7, 17, - 17), (- 12, 5, - 17)],
      [(- 17, 7, - 17), (- 17, 12, - 5)],
      [(- 17, 17, - 7), (- 5, 17, - 12)],
      [(7, 17, 17), (12, 17, 5)],
      [(17, 7, 17), (5, 12, 17)],
      [(17, 17, 7), (17, 5, 12)],
      [(- 7, - 17, 17), (- 12, - 17, 5)],
      [(- 17, - 7, 17), (- 5, - 12, 17)],
      [(- 17, - 17, 7), (- 17, - 5, 12)],
      [(7, - 17, - 17), (12, - 17, - 5)],
      [(17, - 7, - 17), (5, - 12, - 17)],
      [(17, - 17, - 7), (17, - 5, - 12)],
      [(- 7, 17, - 17), (- 12, 17, - 5)],
      [(- 17, 7, - 17), (- 5, 12, - 17)],
      [(- 17, 17, - 7), (- 17, 5, - 12)]]"

definition GTprime_directions :: "vec3 list list" where
  "GTprime_directions =
     [[(0, 1, - 1), (1, 1, - 1)],
      [(- 1, 0, 1), (- 1, 1, 1)],
      [(1, - 1, 0), (1, - 1, 1)],
      [(0, - 1, - 1), (- 1, - 1, - 1)],
      [(1, 0, 1), (1, - 1, 1)],
      [(1, - 1, 0), (1, - 1, - 1)],
      [(0, 1, - 1), (- 1, 1, - 1)],
      [(1, 0, 1), (1, 1, 1)],
      [(- 1, - 1, 0), (- 1, - 1, 1)],
      [(0, - 1, - 1), (1, - 1, - 1)],
      [(- 1, 0, 1), (- 1, - 1, 1)],
      [(- 1, - 1, 0), (- 1, - 1, - 1)],
      [(0, - 1, 1), (1, - 1, 1)],
      [(1, 0, - 1), (1, 1, - 1)],
      [(- 1, 1, 0), (- 1, 1, 1)],
      [(0, 1, 1), (- 1, 1, 1)],
      [(- 1, 0, - 1), (- 1, - 1, - 1)],
      [(- 1, 1, 0), (- 1, 1, - 1)],
      [(0, - 1, 1), (- 1, - 1, 1)],
      [(- 1, 0, - 1), (- 1, 1, - 1)],
      [(1, 1, 0), (1, 1, 1)],
      [(0, 1, 1), (1, 1, 1)],
      [(1, 0, - 1), (1, - 1, - 1)],
      [(1, 1, 0), (1, 1, - 1)]]"

definition GTprime :: relationship where
  \<comment> \<open>Greninger--Troiano' orientation relationship for fcc <-> bcc transformation\<close>
  "GTprime = \<lparr>mapping = [(fcc, 0), (bcc, 1)], planes = GTprime_planes, directions = GTprime_directions\<rparr>"

definition NW_planes :: "vec3 list list" where
  "NW_planes =
     [[(1, 1, 1), (0, 1, 1)],
      [(1, 1, 1), (0, 1, 1)],
      [(1, 1, 1), (0, 1, 1)],
      [(- 1, 1, 1), (0, 1, 1)],
      [(- 1, 1, 1), (0, 1, 1)],
      [(- 1, 1, 1), (0, 1, 1)],
      [(1, - 1, 1), (0, 1, 1)],
      [(1, - 1, 1), (0, 1, 1)],
      [(1, - 1, 1), (0, 1, 1)],
      [(- 1, - 1, 1), (0, 1, 1)],
      [(- 1, - 1, 1), (0, 1, 1)],
      [(- 1, - 1, 1), (0, 1, 1)]]"

definition NW_directions :: "vec3 list list" where
  "NW_directions =
     [[(2, - 1, - 1), (0, - 1, 1)],
      [(- 1, 2, - 1), (0, - 1, 1)],
      [(- 1, - 1, 2), (0, - 1, 1)],
      [(- 2, - 1, - 1), (0, - 1, 1)],
      [(1, 2, - 1), (0, - 1, 1)],
      [(1, - 1, 2), (0, - 1, 1)],
      [(2, 1, - 1), (0, - 1, 1)],
      [(- 1, - 2, - 1), (0, - 1, 1)],
      [(- 1, 1, 2), (0, - 1, 1)],
      [(2, - 1, 1), (0, - 1, 1)],
      [(- 1, 2, 1), (0, - 1, 1)],
      [(- 1, - 1, - 2), (0, - 1, 1)]]"

definition NW :: relationship where
  \<comment> \<open>Nishiyama--Wassermann orientation relationship for fcc <-> bcc transformation\<close>
  "NW = \<lparr>mapping = [(fcc, 0), (bcc, 1)], planes = NW_planes, directions = NW_directions\<rparr>"

definition Pitsch_planes :: "vec3 list list" where
  "Pitsch_planes =
     [[(0, 1, 0), (- 1, 0, 1)],
      [(0, 0, 1), (1, - 1, 0)],
      [(1, 0, 0), (0, 1, - 1)],
      [(1, 0, 0), (0, - 1, - 1)],
      [(0, 1, 0), (- 1, 0, - 1)],
      [(0, 0, 1), (- 1, - 1, 0)],
      [(0, 1, 0), (- 1, 0, - 1)],
      [(0, 0, 1), (- 1, - 1, 0)],
      [(1, 0, 0), (0, - 1, - 1)],
      [(1, 0, 0), (0, - 1, 1)],
      [(0, 1, 0), (1, 0, - 1)],
      [(0, 0, 1), (- 1, 1, 0)]]"

definition Pitsch_directions :: "vec3 list list" where
  "Pitsch_directions =
     [[(1, 0, 1), (1, - 1, 1)],
      [(1, 1, 0), (1, 1, - 1)],
      [(0, 1, 1), (- 1, 1, 1)],
      [(0, 1, - 1), (- 1, 1, - 1)],
      [(- 1, 0, 1), (- 1, - 1, 1)],
      [(1, - 1, 0), (1, - 1, - 1)],
      [(1, 0, - 1), (1, - 1, - 1)],
      [(- 1, 1, 0), (- 1, 1, - 1)],
      [(0, - 1, 1), (- 1, - 1, 1)],
      [(0, 1, 1), (- 1, 1, 1)],
      [(1, 0, 1), (1, - 1, 1)],
      [(1, 1, 0), (1, 1, - 1)]]"

definition Pitsch :: relationship where
  \<comment> \<open>Pitsch orientation relationship for fcc <-> bcc transformation\<close>
  "Pitsch = \<lparr>mapping = [(fcc, 0), (bcc, 1)], planes = Pitsch_planes, directions = Pitsch_directions\<rparr>"

definition Bain_planes :: "vec3 list list" where
  "Bain_planes =
     [[(1, 0, 0), (1, 0, 0)],
      [(0, 1, 0), (0, 1, 0)],
      [(0, 0, 1), (0, 0, 1)]]"

definition Bain_directions :: "vec3 list list" where
  "Bain_directions =
     [[(0, 1, 0), (0, 1, 1)],
      [(0, 0, 1), (1, 0, 1)],
      [(1, 0, 0), (1, 1, 0)]]"

definition Bain :: relationship where
  \<comment> \<open>Bain orientation relationship for fcc <-> bcc transformation\<close>
  "Bain = \<lparr>mapping = [(fcc, 0), (bcc, 1)], planes = Bain_planes, directions = Bain_directions\<rparr>"

definition models :: "(string \<times> relationship) list" where
  "models = [(''KS'', KS), (''GT'', GT), (''GT_prime'', GTprime),
             (''NW'', NW), (''Pitsch'', Pitsch), (''Bain'', Bain)]"

definition hstack :: "vec3 list list \<Rightarrow> vec3 list list \<Rightarrow> vec3 list list" where
  \<comment> \<open>\<^verbatim>\<open>np.hstack\<close> of two arrays of shapes (n,2,3): rows of shape (4,3)\<close>
  "hstack a b = map2 (@) a b"

fun div3 :: "vec3 \<Rightarrow> real \<Rightarrow> vec3" where
  "div3 (a0, a1, a2) n = (a0 / n, a1 / n, a2 / n)"

definition good_row :: "vec3 list \<Rightarrow> bool" where
  \<comment> \<open>a row of four Miller indices whose planes and directions are not zero and
      whose plane normals are perpendicular to their directions\<close>
  "good_row miller =
     (case miller of
        [plane0, plane1, dir0, dir1] \<Rightarrow>
          dot3 plane0 dir0 = 0 \<and> dot3 plane1 dir1 = 0 \<and>
          dot3 plane0 plane0 \<noteq> 0 \<and> dot3 plane1 plane1 \<noteq> 0 \<and>
          dot3 dir0 dir0 \<noteq> 0 \<and> dot3 dir1 dir1 \<noteq> 0
      | _ \<Rightarrow> False)"

definition relation_matrix :: "nat \<Rightarrow> vec3 list \<Rightarrow> mat3" where
  \<comment> \<open>\<^verbatim>\<open>np.dot(otherMatrix.T,myMatrix)\<close> of the row \<^verbatim>\<open>miller\<close>, which has four entries\<close>
  "relation_matrix myPlane_id miller =
     (let otherPlane_id = (myPlane_id + 1) mod 2;
          myDir_id = myPlane_id + 2;
          otherDir_id = otherPlane_id + 2;
          myPlane = div3 (miller ! myPlane_id) (norm3 (miller ! myPlane_id));
          myDir = div3 (miller ! myDir_id) (norm3 (miller ! myDir_id));
          myMatrix = (myDir, cross3 myPlane myDir, myPlane);
          otherPlane = div3 (miller ! otherPlane_id) (norm3 (miller ! otherPlane_id));
          otherDir = div3 (miller ! otherDir_id) (norm3 (miller ! otherDir_id));
          otherMatrix = (otherDir, cross3 otherPlane otherDir, otherPlane)
      in matmul3 (transpose3 otherMatrix) myMatrix)"

definition relation_rotation :: "nat \<Rightarrow> vec3 list \<Rightarrow> error + quaternion" where
  \<comment> \<open>the body of the loop over the rows:
      \<^verbatim>\<open>Rotation.fromMatrix(np.dot(otherMatrix.T,myMatrix))\<close>\<close>
  "relation_rotation myPlane_id miller = fromMatrix (relation_matrix myPlane_id miller)"

fun relation_rotations :: "nat \<Rightarrow> vec3 list list \<Rightarrow> error + quaternion list" where
  \<comment> \<open>the loop: one rotation per row, in row order; the first exception ends it\<close>
  "relation_rotations myPlane_id [] = Inr []"
| "relation_rotations myPlane_id (miller # rest) =
     (case relation_rotation myPlane_id miller of
        Inl e \<Rightarrow> Inl e
      | Inr rot \<Rightarrow>
          (case relation_rotations myPlane_id rest of
             Inl e \<Rightarrow> Inl e
           | Inr rots \<Rightarrow> Inr (rot # rots)))"

record relation =
  rel_lattice :: Lattice
  rotations :: "quaternion list"

definition relationOperations :: "Lattice \<Rightarrow> string \<Rightarrow> error + relation" where
  \<comment> \<open>\<^verbatim>\<open>Lattice.relationOperations(model)\<close>; the result is the dictionary
      \<^verbatim>\<open>{'lattice': ..., 'rotations': [...]}\<close>\<close>
  "relationOperations lattice model =
     (case map_of models model of
        None \<Rightarrow> Inl Relationship_unknown
      | Some relationship \<Rightarrow>
          (case map_of (mapping relationship) lattice of
             None \<Rightarrow> Inl Relationship_unsupported
           | Some myPlane_id \<Rightarrow>
               (case filter (\<lambda>l. l \<noteq> lattice) (map fst (mapping relationship)) of
                  [] \<Rightarrow> Inl Pop_from_empty_set
                | target # _ \<Rightarrow>
                    (case relation_rotations myPlane_id
                            (hstack (planes relationship) (directions relationship)) of
                       Inl e \<Rightarrow> Inl e
                     | Inr rots \<Rightarrow> Inr \<lparr>rel_lattice = target, rotations = rots\<rparr>))))"

section \<open>Orientation (_orientation.py, class Orientation)\<close>

text \<open>
  An orientation pairs a rotation with a lattice. \<^verbatim>\<open>_orientation.py\<close> is written against
  the array-valued \<^verbatim>\<open>Rotation\<close> and \<^verbatim>\<open>Lattice\<close> classes, of which the sources hold the
  scalar predecessors in \<^verbatim>\<open>rotation.py\<close>. The operations the two share stand for each
  other here: \<^verbatim>\<open>inversed\<close>, \<^verbatim>\<open>inverse\<close>, \<^verbatim>\<open>*\<close> and \<^verbatim>\<open>inDisorientationSST\<close> are
  those of \<^verbatim>\<open>rotation.py\<close>, \<^verbatim>\<open>as_Rodrigues\<close> is \<^verbatim>\<open>asRodrigues\<close> and
  \<^verbatim>\<open>symmetry_operations\<close> is \<^verbatim>\<open>symmetryOperations()\<close>.
\<close>

record Orientation =
  rotation :: quaternion
  lattice :: Lattice

definition equivalent :: "Orientation \<Rightarrow> Orientation list" where
  \<comment> \<open>Modelled from the spec: the broadcasting product \<^verbatim>\<open>s@r\<close> of the array-valued
      \<^verbatim>\<open>Rotation\<close> is not among the sources; by the spec \<^verbatim>\<open>equivalent\<close> returns, for each
      symmetry operator of the lattice, the orientation obtained by left-multiplying the
      rotation by that operator.\<close>
  "equivalent self =
     map (\<lambda>s. \<lparr>rotation = mul_Rotation s (rotation self), lattice = lattice self\<rparr>)
         (symmetryOperations (symmetry (lattice self)))"

definition Orientation_in_FZ :: "Orientation \<Rightarrow> error + bool" where
  \<comment> \<open>\<^verbatim>\<open>Orientation.in_FZ()\<close>. Modelled from the spec: \<^verbatim>\<open>Lattice.in_FZ\<close> is not among the
      sources; the fundamental-zone test of the lattice's symmetry class,
      \<^verbatim>\<open>Symmetry.inFZ\<close>, stands for it.\<close>
  "Orientation_in_FZ self = inFZ (symmetry (lattice self)) (asRodrigues (rotation self) True)"

definition in_FZ_method_truth :: bool where
  \<comment> \<open>the truth value of the expression \<^verbatim>\<open>self.in_FZ\<close>: it names the bound method and
      does not call it, and a method object is true\<close>
  "in_FZ_method_truth = True"

definition breaker_of :: "Orientation \<Rightarrow> Orientation \<Rightarrow> bool \<Rightarrow> quaternion \<Rightarrow> error + bool" where
  \<comment> \<open>\<^verbatim>\<open>self.in_FZ and (not SST or
      other.lattice.symmetry.inDisorientationSST(r.as_Rodrigues(vector=True)))\<close>\<close>
  "breaker_of self other SST r =
     (if in_FZ_method_truth
      then (if \<not> SST then Inr True
            else inDisorientationSST (symmetry (lattice other)) (asRodrigues r True))
      else Inr False)"

definition k_loop :: "(quaternion \<Rightarrow> error + bool) \<Rightarrow> quaternion \<Rightarrow> error + quaternion \<times> nat \<times> bool"
  where
  \<comment> \<open>\<^verbatim>\<open>for k in range(2): r.inverse(); breaker = ...; if breaker: break\<close>, giving
      \<^verbatim>\<open>(r, k, breaker)\<close> as the loop leaves them\<close>
  "k_loop test r =
     (let r = inverse_array r
      in case test r of
           Inl e \<Rightarrow> Inl e
         | Inr breaker \<Rightarrow>
             (if breaker then Inr (r, 0, breaker)
              else
                (let r = inverse_array r
                 in case test r of
                      Inl e \<Rightarrow> Inl e
                    | Inr breaker \<Rightarrow> Inr (r, 1, breaker))))"

type_synonym search_state = "quaternion \<times> nat \<times> nat \<times> bool"

fun j_loop ::
  "(quaternion \<Rightarrow> error + bool) \<Rightarrow> quaternion \<Rightarrow> (nat \<times> Orientation) list
     \<Rightarrow> search_state option \<Rightarrow> error + search_state option" where
  \<comment> \<open>\<^verbatim>\<open>for j,sB in enumerate(otherSymEqs)\<close>; the state holds \<^verbatim>\<open>(r, j, k, breaker)\<close>
      once they are bound\<close>
  "j_loop test aInv [] st = Inr st"
| "j_loop test aInv ((j, sB) # rest) st =
     (let b = rotation sB;
          r = mul_Rotation b aInv
      in case k_loop test r of
           Inl e \<Rightarrow> Inl e
         | Inr (r, k, breaker) \<Rightarrow>
             (if breaker then Inr (Some (r, j, k, breaker))
              else j_loop test aInv rest (Some (r, j, k, breaker))))"

fun i_loop ::
  "(quaternion \<Rightarrow> error + bool) \<Rightarrow> (nat \<times> Orientation) list \<Rightarrow> (nat \<times> Orientation) list
     \<Rightarrow> (nat \<times> search_state) option \<Rightarrow> error + (nat \<times> search_state) option" where
  \<comment> \<open>\<^verbatim>\<open>for i,sA in enumerate(mySymEqs)\<close>\<close>
  "i_loop test others [] st = Inr st"
| "i_loop test others ((i, sA) # rest) st =
     (let aInv = inverse_array (rotation sA)
      in case j_loop test aInv others (map_option snd st) of
           Inl e \<Rightarrow> Inl e
         | Inr None \<Rightarrow> Inl Unbound_local
         | Inr (Some (r, j, k, breaker)) \<Rightarrow>
             (if breaker then Inr (Some (i, r, j, k, breaker))
              else i_loop test others rest (Some (i, r, j, k, breaker))))"

datatype disorientation_result =
    Disorientation quaternion
  | Disorientation_symmetries Orientation nat nat bool

definition disorientation ::
  "Orientation \<Rightarrow> Orientation \<Rightarrow> bool \<Rightarrow> bool \<Rightarrow> error + disorientation_result" where
  \<comment> \<open>\<^verbatim>\<open>Orientation.disorientation(other, SST, symmetries)\<close>. Modelled from the spec: how
      the array-valued classes index and iterate \<^verbatim>\<open>self.equivalent[0]\<close> is not among the
      sources; by the spec the outer loop then runs over the first equivalent only.\<close>
  "disorientation self other SST symmetries =
     (if symmetry (lattice self) \<noteq> symmetry (lattice other) then Inl Different_symmetry
      else
        (case (if SST then Inr (equivalent self)
               else (case equivalent self of
                       [] \<Rightarrow> Inl Index_out_of_range
                     | first # _ \<Rightarrow> Inr [first])) of
           Inl e \<Rightarrow> Inl e
         | Inr mySymEqs \<Rightarrow>
             (let otherSymEqs = equivalent other
              in case i_loop (breaker_of self other SST) (enumerate 0 otherSymEqs)
                        (enumerate 0 mySymEqs) None of
                   Inl e \<Rightarrow> Inl e
                 | Inr None \<Rightarrow> Inl Unbound_local
                 | Inr (Some (i, r, j, k, breaker)) \<Rightarrow>
                     Inr (if symmetries
                          then Disorientation_symmetries
                                 \<lparr>rotation = r, lattice = lattice self\<rparr> i j (k = 1)
                          else Disorientation r))))"

subsection \<open>The search as an enumeration\<close>

text \<open>
  The candidates of the search in the order the loops visit them: own operator, then
  other operator, then the inverse of the product \<^verbatim>\<open>b*aInv\<close> (flag False) before the
  product itself (flag True).
\<close>

type_synonym candidate = "quaternion \<times> nat \<times> nat \<times> bool"

definition pair_candidates :: "nat \<times> Orientation \<Rightarrow> nat \<times> Orientation \<Rightarrow> candidate list" where
  "pair_candidates iA jB =
     (let m = mul_Rotation (rotation (snd jB)) (inverse_array (rotation (snd iA)))
      in [(inverse_array m, fst iA, fst jB, False), (m, fst iA, fst jB, True)])"

definition own_equivalents :: "Orientation \<Rightarrow> bool \<Rightarrow> Orientation list" where
  "own_equivalents self SST = (if SST then equivalent self else take 1 (equivalent self))"

definition candidates :: "Orientation \<Rightarrow> Orientation \<Rightarrow> bool \<Rightarrow> candidate list" where
  "candidates self other SST =
     concat (map (\<lambda>iA. concat (map (pair_candidates iA) (enumerate 0 (equivalent other))))
                 (enumerate 0 (own_equivalents self SST)))"

definition accepted :: "Orientation \<Rightarrow> Orientation \<Rightarrow> bool \<Rightarrow> candidate \<Rightarrow> bool" where
  \<comment> \<open>the candidate makes \<^verbatim>\<open>breaker\<close> true\<close>
  "accepted self other SST c = (breaker_of self other SST (fst c) = Inr True)"

definition as_result :: "Orientation \<Rightarrow> bool \<Rightarrow> candidate \<Rightarrow> disorientation_result" where
  \<comment> \<open>what \<^verbatim>\<open>disorientation\<close> returns when the loops end at the candidate\<close>
  "as_result self symmetries c =
     (case c of (r, i, j, flag) \<Rightarrow>
        if symmetries
        then Disorientation_symmetries \<lparr>rotation = r, lattice = lattice self\<rparr> i j flag
        else Disorientation r)"

definition state_of :: "candidate \<Rightarrow> bool \<Rightarrow> search_state" where
  \<comment> \<open>the values of \<^verbatim>\<open>(r, j, k, breaker)\<close> after the candidate has been tested\<close>
  "state_of c b = (case c of (r, i, j, flag) \<Rightarrow> (r, j, if flag then 1 else 0, b))"

definition search_result :: "('a \<Rightarrow> bool) \<Rightarrow> 'a list \<Rightarrow> ('a \<times> bool) option" where
  \<comment> \<open>where a search with early exit stops: at the first element that passes, or at the
      last element when none passes\<close>
  "search_result acc cs =
     (case find acc cs of
        Some c \<Rightarrow> Some (c, True)
      | None \<Rightarrow> (if cs = [] then None else Some (last cs, False)))"

subsection \<open>The search as the specification words it\<close>

text \<open>
  The same enumeration with the two tests of a pair in the order the specification gives
  them, the misorientation itself (flag False) before its inverse (flag True), and with
  the acceptance test it gives: inside the own fundamental zone and, when \<open>SST\<close> is
  set, inside the disorientation standard stereographic triangle.
\<close>

definition pair_candidates_spec :: "nat \<times> Orientation \<Rightarrow> nat \<times> Orientation \<Rightarrow> candidate list"
  where
  "pair_candidates_spec iA jB =
     (let m = mul_Rotation (rotation (snd jB)) (inverse_array (rotation (snd iA)))
      in [(m, fst iA, fst jB, False), (inverse_array m, fst iA, fst jB, True)])"

definition candidates_spec :: "Orientation \<Rightarrow> Orientation \<Rightarrow> bool \<Rightarrow> candidate list" where
  "candidates_spec self other SST =
     concat (map (\<lambda>iA. concat (map (pair_candidates_spec iA) (enumerate 0 (equivalent other))))
                 (enumerate 0 (own_equivalents self SST)))"

definition accepted_spec :: "Orientation \<Rightarrow> Orientation \<Rightarrow> bool \<Rightarrow> candidate \<Rightarrow> bool" where
  "accepted_spec self other SST c =
     (inFZ (symmetry (lattice self)) (asRodrigues (fst c) True) = Inr True
      \<and> (if SST
         then inDisorientationSST (symmetry (lattice other)) (asRodrigues (fst c) True) = Inr True
         else True))"

definition disorientation_spec :: "Orientation \<Rightarrow> Orientation \<Rightarrow> bool \<Rightarrow> candidate option" where
  "disorientation_spec self other SST =
     find (accepted_spec self other SST) (candidates_spec self other SST)"

section \<open>Properties of the rotation kernel\<close>

text \<open>
  C2. For every pair of rotations \<open>a\<close> and \<open>b\<close> the composition \<open>a * b\<close>, the Hamilton
  product with the sign \<open>P\<close> on the cross term, is standardized before it is returned:
  the real component of the resulting quaternion is never negative.
\<close>

theorem mul_Rotation_standardized: "0 \<le> q0 (mul_Rotation a b)"
  by (simp add: mul_Rotation_def Let_def standardize_array_def negated_def)

theorem mul_Rotation_standardized_witness:
  "0 \<le> q0 (mul_Rotation (Quat 0 1 0 0) (Quat 0 1 0 0)) \<and>
   mul_Rotation (Quat 0 1 0 0) (Quat 0 1 0 0) = Quat 1 0 0 0"
  using mul_Rotation_standardized [of "Quat 0 1 0 0" "Quat 0 1 0 0"]
  by (simp add: mul_Rotation_def Let_def standardize_array_def negated_def quaternion_p_def
      append_qp_def P_def)

text \<open>
  C4. For every rotation \<open>q\<close> with a unit quaternion, \<open>q * q.inversed()\<close> is the identity
  quaternion (1, 0, 0, 0). The array of \<open>q.inversed()\<close> is \<open>inverse_array q\<close>.
\<close>

theorem mul_inversed_identity:
  assumes "unit_quaternion q"
  shows "mul_Rotation q (inverse_array q) = Quat 1 0 0 0"
proof -
  have u: "(q0 q)\<^sup>2 + (q1 q)\<^sup>2 + (q2 q)\<^sup>2 + (q3 q)\<^sup>2 = 1"
    using assms by (simp add: unit_quaternion_def)
  have w: "q0 q * q0 q + q1 q * q1 q + q2 q * q2 q + q3 q * q3 q = 1"
    using u by (simp add: power2_eq_square)
  show ?thesis
    using w
    by (simp add: mul_Rotation_def Let_def standardize_array_def negated_def quaternion_p_def
        append_qp_def inverse_array_def P_def algebra_simps)
qed

theorem mul_inversed_identity_witness:
  "unit_quaternion (Quat (3 / 5) 0 (4 / 5) 0) \<and>
   mul_Rotation (Quat (3 / 5) 0 (4 / 5) 0) (inverse_array (Quat (3 / 5) 0 (4 / 5) 0))
     = Quat 1 0 0 0"
proof -
  have u: "unit_quaternion (Quat (3 / 5) 0 (4 / 5) 0)"
    by (simp add: unit_quaternion_def power2_eq_square)
  show ?thesis using u mul_inversed_identity [OF u] by simp
qed

text \<open>
  C9. For every rotation with a unit quaternion and every real 3-vector \<open>v\<close>, the closed
  form by which \<open>__mul__\<close> rotates a vector preserves the Euclidean norm.
\<close>

theorem mul_vector_norm:
  assumes "unit_quaternion q"
  shows "norm3 (mul_vector q v) = norm3 v"
proof -
  obtain w x y z where q: "q = Quat w x y z" by (cases q)
  obtain a b c where v: "v = (a, b, c)" by (cases v)
  have u: "w\<^sup>2 + x\<^sup>2 + y\<^sup>2 + z\<^sup>2 = 1"
    using assms by (simp add: unit_quaternion_def q)
  have "dot3 (mul_vector q v) (mul_vector q v) = (w\<^sup>2 + x\<^sup>2 + y\<^sup>2 + z\<^sup>2)\<^sup>2 * dot3 v v"
    by (simp add: q v mul_vector_def Let_def quaternion_p_def P_def power2_eq_square
        algebra_simps)
  then have "dot3 (mul_vector q v) (mul_vector q v) = dot3 v v"
    by (simp add: u)
  then show ?thesis by (simp add: norm3_def)
qed

theorem mul_vector_norm_witness:
  "unit_quaternion (Quat (3 / 5) 0 (4 / 5) 0) \<and>
   norm3 (mul_vector (Quat (3 / 5) 0 (4 / 5) 0) (1, 2, 2)) = 3"
proof -
  have u: "unit_quaternion (Quat (3 / 5) 0 (4 / 5) 0)"
    by (simp add: unit_quaternion_def power2_eq_square)
  have "norm3 (1, 2, 2) = 3"
    by (simp add: norm3_def real_sqrt_unique)
  then show ?thesis using u mul_vector_norm [OF u, of "(1, 2, 2)"] by simp
qed

text \<open>
  C8. The claim that inversion and standardization never change the rotation they are
  applied to fails for \<open>inverse\<close>: called on the object 0 with the array (0, 1, 0, 0) it
  returns that same object, whose array is then (0, -1, 0, 0).
\<close>

theorem inverse_in_place_counterexample:
  "objects \<lparr>objects = [0 \<mapsto> Quat 0 1 0 0], next_ref = 1\<rparr> 0 = Some (Quat 0 1 0 0) \<and>
   returned (Rotation_inverse \<lparr>objects = [0 \<mapsto> Quat 0 1 0 0], next_ref = 1\<rparr> 0) = Some 0 \<and>
   quaternion_after (Rotation_inverse \<lparr>objects = [0 \<mapsto> Quat 0 1 0 0], next_ref = 1\<rparr> 0) 0
     = Some (Quat 0 (- 1) 0 0)"
  by (simp add: Rotation_inverse_def quaternion_after_def returned_def inverse_array_def)

text \<open>
  C8, amended. \<open>inversed\<close> and \<open>standardized\<close> return a new object that holds the
  inverted (vector part negated) or standardized array and leave every object that
  existed before, the receiver among them, as it was. \<open>inverse\<close> and \<open>standardize\<close>
  work in place: they return the receiver, whose array is then the inverted or
  standardized one, and leave every other object as it was.
\<close>

theorem inversed_standardized_pure:
  assumes "r < next_ref s" and "objects s r = Some q"
  shows "returned (Rotation_inversed s r) = Some (next_ref s) \<and>
         quaternion_after (Rotation_inversed s r) (next_ref s) = Some (inverse_array q) \<and>
         (\<forall>x. x < next_ref s \<longrightarrow> quaternion_after (Rotation_inversed s r) x = objects s x) \<and>
         returned (Rotation_standardized s r) = Some (next_ref s) \<and>
         quaternion_after (Rotation_standardized s r) (next_ref s) = Some (standardize_array q) \<and>
         (\<forall>x. x < next_ref s \<longrightarrow> quaternion_after (Rotation_standardized s r) x = objects s x) \<and>
         returned (Rotation_inverse s r) = Some r \<and>
         quaternion_after (Rotation_inverse s r) r = Some (inverse_array q) \<and>
         (\<forall>x. x \<noteq> r \<longrightarrow> quaternion_after (Rotation_inverse s r) x = objects s x) \<and>
         returned (Rotation_standardize s r) = Some r \<and>
         quaternion_after (Rotation_standardize s r) r = Some (standardize_array q) \<and>
         (\<forall>x. x \<noteq> r \<longrightarrow> quaternion_after (Rotation_standardize s r) x = objects s x)"
  using assms
  by (simp add: Rotation_inversed_def Rotation_standardized_def Rotation_inverse_def
      Rotation_standardize_def Rotation_copy_def new_Rotation_def quaternion_after_def
      returned_def)

theorem inversed_standardized_pure_witness:
  "returned (Rotation_inversed \<lparr>objects = [0 \<mapsto> Quat (- 1) 1 0 0], next_ref = 1\<rparr> 0) = Some 1 \<and>
   quaternion_after (Rotation_inversed \<lparr>objects = [0 \<mapsto> Quat (- 1) 1 0 0], next_ref = 1\<rparr> 0) 1
     = Some (Quat (- 1) (- 1) 0 0) \<and>
   quaternion_after (Rotation_inversed \<lparr>objects = [0 \<mapsto> Quat (- 1) 1 0 0], next_ref = 1\<rparr> 0) 0
     = Some (Quat (- 1) 1 0 0) \<and>
   quaternion_after (Rotation_standardized \<lparr>objects = [0 \<mapsto> Quat (- 1) 1 0 0], next_ref = 1\<rparr> 0) 1
     = Some (Quat 1 (- 1) 0 0) \<and>
   quaternion_after (Rotation_standardized \<lparr>objects = [0 \<mapsto> Quat (- 1) 1 0 0], next_ref = 1\<rparr> 0) 0
     = Some (Quat (- 1) 1 0 0) \<and>
   quaternion_after (Rotation_standardize \<lparr>objects = [0 \<mapsto> Quat (- 1) 1 0 0], next_ref = 1\<rparr> 0) 0
     = Some (Quat 1 (- 1) 0 0)"
  using inversed_standardized_pure
    [of 0 "\<lparr>objects = [0 \<mapsto> Quat (- 1) 1 0 0], next_ref = 1\<rparr>" "Quat (- 1) 1 0 0"]
  by (simp add: inverse_array_def standardize_array_def negated_def)

section \<open>Properties of the constructors\<close>

text \<open>
  C6. For three Euler angles in radians \<open>fromEulers\<close> raises, and raises the range
  error, exactly when some angle lies outside [0, 2 pi] or the second one exceeds pi;
  otherwise it returns the rotation of the quaternion that \<open>eu2qu\<close> computes.
\<close>

theorem fromEulers_range:
  fixes phi1 Phi phi2 :: real
  defines "outside \<equiv> (phi1 < 0 \<or> 2 * pi < phi1) \<or> (Phi < 0 \<or> 2 * pi < Phi)
                        \<or> (phi2 < 0 \<or> 2 * pi < phi2) \<or> pi < Phi"
  shows "((\<exists>e. fromEulers (phi1, Phi, phi2) False = Inl e) \<longleftrightarrow> outside) \<and>
         (outside \<longrightarrow> fromEulers (phi1, Phi, phi2) False = Inl Eulers_out_of_range) \<and>
         (\<not> outside \<longrightarrow> fromEulers (phi1, Phi, phi2) False = Inr (eu2qu (phi1, Phi, phi2)))"
  unfolding outside_def by (auto simp add: fromEulers_def)

theorem fromEulers_range_witness:
  "fromEulers (0, 0, 0) False = Inr (Quat 1 0 0 0) \<and>
   fromEulers (0, - 1, 0) False = Inl Eulers_out_of_range"
  using fromEulers_range [of 0 0 0] fromEulers_range [of 0 "- 1" 0]
  by (simp add: eu2qu_def P_def)

section \<open>Properties of the symmetry group\<close>

text \<open>
  C10. For the unspecified symmetry \<open>inSST\<close> answers True whatever the vector is, and
  with the colour requested it answers the pair of True and the zero colour.
\<close>

theorem inSST_unspecified:
  "inSST Sym_None vector proper False = Inr (SST_bool True) \<and>
   inSST Sym_None vector proper True = Inr (SST_color True [Fin 0, Fin 0, Fin 0])"
  by (simp add: inSST_def)

theorem inSST_unspecified_witness:
  "inSST Sym_None [1, - 2] True False = Inr (SST_bool True) \<and>
   inSST Sym_None [1, - 2] True True = Inr (SST_color True [Fin 0, Fin 0, Fin 0])"
  using inSST_unspecified [of "[1, - 2]" True] by simp

text \<open>
  \<open>inFZ\<close> refuses a vector that has not three entries, and with three entries it
  answers False as soon as one of them is positive infinity.
\<close>

lemma inFZ_length: "length rodrigues \<noteq> 3 \<Longrightarrow> inFZ symm rodrigues = Inl Not_a_Rodrigues_vector"
  by (simp add: inFZ_def)

lemma inFZ_positive_infinity:
  "length rodrigues = 3 \<Longrightarrow> PInf \<in> set rodrigues \<Longrightarrow> inFZ symm rodrigues = Inr False"
  by (auto simp add: inFZ_def list_ex_iff)

text \<open>
  For the four named symmetries every infinite entry, of either sign, puts the vector
  outside the zone: the absolute value of the entry exceeds every finite bound.
\<close>

lemma xadd_infinite_left: "xle (xadd PInf r) (Fin a) = False"
  by (cases r) simp_all

lemma inFZ_infinite_named:
  assumes "length rodrigues = 3" and "PInf \<in> set rodrigues \<or> MInf \<in> set rodrigues"
    and "symm \<noteq> Sym_None"
  shows "inFZ symm rodrigues = Inr False"
proof (cases "PInf \<in> set rodrigues")
  case True
  then show ?thesis using assms(1) by (rule inFZ_positive_infinity [rotated])
next
  case False
  obtain a b c where r: "rodrigues = [a, b, c]"
    using assms(1) by (auto simp add: length_Suc_conv numeral_3_eq_3)
  have m: "a = MInf \<or> b = MInf \<or> c = MInf"
    using assms(2) False by (auto simp add: r)
  have nop: "\<not> list_ex (\<lambda>r. r = PInf) rodrigues"
    using False by (simp add: list_ex_iff)
  have inf: "xabs a = PInf \<or> xabs b = PInf \<or> xabs c = PInf"
    using m by auto
  show ?thesis
    using inf assms(3)
    by (cases symm) (auto simp add: inFZ_def nop [unfolded r] r xge_def xadd_infinite_left)
qed

text \<open>
  C3. Negative infinity passes the guard \<open>rodrigues == np.inf\<close>, and the unspecified
  symmetry then answers True. The unit quaternion (0, -1/3, -2/3, -2/3) has the
  Rodrigues-Frank vector (-inf, -inf, -inf), which \<open>inFZ\<close> of the unspecified symmetry
  places inside the zone, while the opposite vector (inf, inf, inf) of the quaternion
  (0, 1/3, 2/3, 2/3) is outside: the zone the code computes is not point symmetric.
\<close>

theorem inFZ_negative_infinity:
  "asRodrigues (Quat 0 (- (1 / 3)) (- (2 / 3)) (- (2 / 3))) True = [MInf, MInf, MInf] \<and>
   inFZ Sym_None [MInf, MInf, MInf] = Inr True \<and>
   asRodrigues (Quat 0 (1 / 3) (2 / 3) (2 / 3)) True = [PInf, PInf, PInf] \<and>
   inFZ Sym_None [PInf, PInf, PInf] = Inr False"
  by (simp add: asRodrigues_def qu2ro_def iszero_def inFZ_def)

section \<open>Properties of the disorientation search\<close>

subsection \<open>The loops as a search with early exit\<close>

lemma find_append: "find f (xs @ ys) = (case find f xs of None \<Rightarrow> find f ys | Some x \<Rightarrow> Some x)"
  by (induction xs) simp_all

lemma search_result_append:
  "search_result acc (xs @ ys) =
     (case find acc xs of
        Some c \<Rightarrow> Some (c, True)
      | None \<Rightarrow>
          (case search_result acc ys of
             None \<Rightarrow> (if xs = [] then None else Some (last xs, False))
           | Some r \<Rightarrow> Some r))"
  by (simp add: search_result_def find_append split: option.splits)

lemma inverse_array_twice: "inverse_array (inverse_array m) = m"
  by (cases m) (simp add: inverse_array_def)

lemma length_qu2ro: "length (qu2ro q) = 4"
  by (simp add: qu2ro_def Let_def)

lemma length_asRodrigues_vector: "length (asRodrigues q True) = 3"
  by (simp add: asRodrigues_def Let_def length_qu2ro)

lemma inDisorientationSST_total:
  "length v = 3 \<Longrightarrow> \<exists>b. inDisorientationSST symm v = Inr b"
  by (cases symm) (auto simp add: inDisorientationSST_def Let_def)

lemma breaker_of_total: "\<exists>b. breaker_of self other SST r = Inr b"
  using inDisorientationSST_total [OF length_asRodrigues_vector]
  by (auto simp add: breaker_of_def in_FZ_method_truth_def)

lemma breaker_of_accepted:
  "breaker_of self other SST (fst c) = Inr (accepted self other SST c)"
  using breaker_of_total [of self other SST "fst c"]
  by (auto simp add: accepted_def)

lemma k_loop_total:
  assumes "\<And>r. test r = Inr (t r)"
  shows "k_loop test m =
           Inr (if t (inverse_array m) then (inverse_array m, 0, True) else (m, 1, t m))"
  by (simp add: k_loop_def Let_def assms inverse_array_twice)

lemma j_loop_search:
  assumes "\<And>r. test r = Inr (acc' r)"
  shows "j_loop test (inverse_array (rotation (snd iA))) js st =
           Inr (case search_result (\<lambda>c. acc' (fst c)) (concat (map (pair_candidates iA) js)) of
                  None \<Rightarrow> st
                | Some (c, b) \<Rightarrow> Some (state_of c b))"
proof (induction js arbitrary: st)
  case Nil
  then show ?case by (simp add: search_result_def)
next
  case (Cons jB js)
  obtain j sB where jB: "jB = (j, sB)" by (cases jB)
  define m where "m = mul_Rotation (rotation sB) (inverse_array (rotation (snd iA)))"
  define c1 :: candidate where "c1 = (inverse_array m, fst iA, j, False)"
  define c2 :: candidate where "c2 = (m, fst iA, j, True)"
  define R where "R = concat (map (pair_candidates iA) js)"
  define A :: "candidate \<Rightarrow> bool" where "A = (\<lambda>c. acc' (fst c))"
  have pc: "concat (map (pair_candidates iA) (jB # js)) = [c1, c2] @ R"
    by (simp add: pair_candidates_def jB m_def Let_def c1_def c2_def R_def)
  have sr: "search_result A (concat (map (pair_candidates iA) (jB # js))) =
              (if A c1 then Some (c1, True)
               else if A c2 then Some (c2, True)
               else (case search_result A R of None \<Rightarrow> Some (c2, False) | Some r \<Rightarrow> Some r))"
    unfolding pc search_result_append by (simp split: option.splits)
  have k: "k_loop test m =
             Inr (if acc' (inverse_array m) then (inverse_array m, 0, True) else (m, 1, acc' m))"
    by (rule k_loop_total [OF assms])
  have step: "j_loop test (inverse_array (rotation (snd iA))) (jB # js) st =
                (if A c1 then Inr (Some (state_of c1 True))
                 else if A c2 then Inr (Some (state_of c2 True))
                 else j_loop test (inverse_array (rotation (snd iA))) js (Some (state_of c2 False)))"
    using k by (simp add: jB m_def [symmetric] Let_def A_def c1_def c2_def state_of_def)
  have IH: "j_loop test (inverse_array (rotation (snd iA))) js (Some (state_of c2 False)) =
              Inr (case search_result A R of
                     None \<Rightarrow> Some (state_of c2 False)
                   | Some (c, b) \<Rightarrow> Some (state_of c b))"
    unfolding A_def R_def by (rule Cons.IH)
  show ?case
    unfolding step IH A_def [symmetric] sr
    by (simp split: option.splits)
qed

lemma search_result_None: "search_result acc cs = None \<longleftrightarrow> cs = []"
  by (cases cs) (auto simp add: search_result_def split: option.splits)

lemma search_result_Some:
  assumes "search_result acc cs = Some (c, b)"
  shows "c \<in> set cs" and "find acc cs = (if b then Some c else None)"
    and "\<not> b \<Longrightarrow> last cs = c"
  using assms
  by (auto simp add: search_result_def find_Some_iff split: option.splits if_splits)

lemma i_loop_search:
  assumes "\<And>r. test r = Inr (acc' r)" and "others \<noteq> []"
  shows "i_loop test others is st =
           Inr (case search_result (\<lambda>c. acc' (fst c))
                       (concat (map (\<lambda>iA. concat (map (pair_candidates iA) others)) is)) of
                  None \<Rightarrow> st
                | Some (c, b) \<Rightarrow> Some (fst (snd c), state_of c b))"
proof (induction "is" arbitrary: st)
  case Nil
  then show ?case by (simp add: search_result_def)
next
  case (Cons iA "is")
  obtain i sA where iA: "iA = (i, sA)" by (cases iA)
  define A :: "candidate \<Rightarrow> bool" where "A = (\<lambda>c. acc' (fst c))"
  define cs where "cs = concat (map (pair_candidates iA) others)"
  define R where "R = concat (map (\<lambda>iA. concat (map (pair_candidates iA) others)) is)"
  obtain jB rest where others: "others = jB # rest"
    using assms(2) by (cases others) auto
  have ne: "cs \<noteq> []"
    by (simp add: cs_def others pair_candidates_def Let_def)
  have fsts: "\<And>c. c \<in> set cs \<Longrightarrow> fst (snd c) = i"
    by (auto simp add: cs_def pair_candidates_def Let_def iA)
  have split: "concat (map (\<lambda>iA. concat (map (pair_candidates iA) others)) (iA # is)) = cs @ R"
    by (simp add: cs_def R_def)
  have j: "j_loop test (inverse_array (rotation sA)) others (map_option snd st) =
             Inr (case search_result A cs of
                    None \<Rightarrow> map_option snd st
                  | Some (c, b) \<Rightarrow> Some (state_of c b))"
    using j_loop_search [OF assms(1), where iA = iA and js = others and st = "map_option snd st"]
    by (simp add: cs_def iA A_def)
  obtain c b where sc: "search_result A cs = Some (c, b)"
    using ne search_result_None [of A cs] by (cases "search_result A cs") auto
  have cin: "c \<in> set cs" by (rule search_result_Some(1) [OF sc])
  have ci: "fst (snd c) = i" using cin by (rule fsts)
  obtain r i' j' f where c: "c = (r, i', j', f)" by (cases c)
  have step: "i_loop test others (iA # is) st =
                (if b then Inr (Some (i, state_of c True))
                 else i_loop test others is (Some (i, state_of c False)))"
    using j sc by (simp add: iA c state_of_def)
  have IH: "i_loop test others is (Some (i, state_of c False)) =
              Inr (case search_result A R of
                     None \<Rightarrow> Some (i, state_of c False)
                   | Some (c, b) \<Rightarrow> Some (fst (snd c), state_of c b))"
    unfolding A_def R_def by (rule Cons.IH)
  have fb: "find A cs = (if b then Some c else None)" by (rule search_result_Some(2) [OF sc])
  have lb: "\<not> b \<Longrightarrow> last cs = c" by (rule search_result_Some(3) [OF sc])
  have sr: "search_result A (cs @ R) =
              (if b then Some (c, True)
               else (case search_result A R of None \<Rightarrow> Some (c, False) | Some r \<Rightarrow> Some r))"
    unfolding search_result_append fb using lb ne by (simp split: option.splits)
  show ?case
    unfolding step IH split A_def [symmetric] sr
    using ci by (auto split: option.splits)
qed


lemma symQuats_nonempty: "symQuats symm \<noteq> []"
  by (cases symm) simp_all

lemma equivalent_nonempty: "equivalent self \<noteq> []"
  by (simp add: equivalent_def symmetryOperations_def symQuats_nonempty)

lemma disorientation_search:
  assumes "symmetry (lattice self) = symmetry (lattice other)"
  shows "disorientation self other SST symmetries =
           Inr (as_result self symmetries
                  (case find (accepted self other SST) (candidates self other SST) of
                     Some c \<Rightarrow> c
                   | None \<Rightarrow> last (candidates self other SST)))"
proof -
  define A where "A = accepted self other SST"
  define others where "others = enumerate 0 (equivalent other)"
  define mine where "mine = enumerate 0 (own_equivalents self SST)"
  define cs where "cs = candidates self other SST"
  have test: "\<And>r. breaker_of self other SST r = Inr (accepted self other SST (r, 0, 0, False))"
    using breaker_of_accepted [of self other SST "(r, 0, 0, False)" for r] by simp
  have A: "(\<lambda>c. accepted self other SST (fst c, 0, 0, False)) = A"
    by (simp add: A_def accepted_def fun_eq_iff)
  have others_ne: "others \<noteq> []"
    using equivalent_nonempty [of other] by (simp add: others_def enumerate_eq_zip)
  have own: "(if SST then Inr (equivalent self)
              else (case equivalent self of [] \<Rightarrow> Inl Index_out_of_range
                    | first # _ \<Rightarrow> Inr [first])) = Inr (own_equivalents self SST)"
    using equivalent_nonempty [of self]
    by (cases "equivalent self") (simp_all add: own_equivalents_def)
  have mine_ne: "mine \<noteq> []"
    using equivalent_nonempty [of self]
    by (cases "equivalent self") (simp_all add: mine_def own_equivalents_def enumerate_eq_zip)
  have cs: "cs = concat (map (\<lambda>iA. concat (map (pair_candidates iA) others)) mine)"
    by (simp add: cs_def candidates_def others_def mine_def)
  have cs_ne: "cs \<noteq> []"
    using others_ne mine_ne
    by (cases mine; cases others) (simp_all add: cs pair_candidates_def Let_def)
  have loop: "i_loop (breaker_of self other SST) others mine None =
                Inr (case search_result A cs of
                       None \<Rightarrow> None
                     | Some (c, b) \<Rightarrow> Some (fst (snd c), state_of c b))"
    using i_loop_search [of "breaker_of self other SST"
        "\<lambda>r. accepted self other SST (r, 0, 0, False)" others mine None, OF test others_ne]
    by (simp add: A cs)
  obtain c b where sc: "search_result A cs = Some (c, b)"
    using cs_ne search_result_None [of A cs] by (cases "search_result A cs") auto
  obtain r i j f where c: "c = (r, i, j, f)" by (cases c)
  have pick: "(case find A cs of Some c \<Rightarrow> c | None \<Rightarrow> last cs) = c"
    using search_result_Some(2,3) [OF sc] by (cases b) simp_all
  have lhs: "disorientation self other SST symmetries = Inr (as_result self symmetries c)"
    using assms
    by (simp add: disorientation_def own others_def [symmetric] mine_def [symmetric] loop sc
        c state_of_def as_result_def)
  show ?thesis
    unfolding lhs A_def [symmetric] cs_def [symmetric] pick ..
qed

lemma accepted_inside:
  "SST \<Longrightarrow> accepted self other SST c \<Longrightarrow>
     inDisorientationSST (symmetry (lattice other)) (asRodrigues (fst c) True) = Inr True"
  by (simp add: accepted_def breaker_of_def in_FZ_method_truth_def)

subsection \<open>Rodrigues-Frank vectors of unit quaternions\<close>

text \<open>
  Away from the half turn and from the identity the vector \<open>asRodrigues\<close> returns for a
  unit quaternion is its vector part divided by its real part.
\<close>

lemma asRodrigues_vector_unit:
  assumes "unit_quaternion q" and "\<not> iszero (q0 q)"
    and "\<not> iszero (norm3 (q1 q, q2 q, q3 q))"
  shows "asRodrigues q True = [Fin (q1 q / q0 q), Fin (q2 q / q0 q), Fin (q3 q / q0 q)]"
proof -
  define s where "s = norm3 (q1 q, q2 q, q3 q)"
  have u: "(q0 q)\<^sup>2 + (q1 q)\<^sup>2 + (q2 q)\<^sup>2 + (q3 q)\<^sup>2 = 1"
    using assms(1) by (simp add: unit_quaternion_def)
  have s2: "s = sqrt (1 - (q0 q)\<^sup>2)"
    using u by (simp add: s_def norm3_def power2_eq_square algebra_simps)
  have "(q0 q)\<^sup>2 \<le> 1"
    using u by (smt (verit) zero_le_power2)
  then have w: "\<bar>q0 q\<bar> \<le> 1"
    by (simp add: abs_le_square_iff [of "q0 q" 1, simplified])
  then have clip: "clip (q0 q) (- 1) 1 = q0 q"
    by (simp add: clip_def abs_le_iff min_def max_def)
  have tan: "tan (arccos (q0 q)) = s / q0 q"
    using w by (simp add: tan_def sin_arccos_abs cos_arccos_abs s2)
  have s0: "s \<noteq> 0"
    using assms(3) by (auto simp add: s_def iszero_def)
  have ro: "qu2ro q = [Fin (q1 q / s), Fin (q2 q / s), Fin (q3 q / s), Fin (s / q0 q)]"
    using assms(2,3) by (simp add: qu2ro_def Let_def s_def [symmetric] clip tan)
  show ?thesis
    using s0 by (simp add: asRodrigues_def ro)
qed

lemma symQuats_head: "\<exists>rest. symQuats symm = Quat 1 0 0 0 # rest"
  by (cases symm) simp_all

lemma mul_Rotation_identity_left: "mul_Rotation (Quat 1 0 0 0) q = standardize_array q"
  by (cases q) (simp add: mul_Rotation_def Let_def quaternion_p_def append_qp_def P_def)

lemma mul_Rotation_identity_right: "mul_Rotation q (Quat 1 0 0 0) = standardize_array q"
  by (cases q) (simp add: mul_Rotation_def Let_def quaternion_p_def append_qp_def P_def)

lemma equivalent_head:
  "\<exists>rest. equivalent self =
     \<lparr>rotation = standardize_array (rotation self), lattice = lattice self\<rparr> # rest"
  using symQuats_head [of "symmetry (lattice self)"]
  by (auto simp add: equivalent_def symmetryOperations_def mul_Rotation_identity_left)

lemma inverse_array_Quat: "inverse_array (Quat a b c d) = Quat a (- b) (- c) (- d)"
  by (simp add: inverse_array_def)

lemma sqrt_49_625: "sqrt (49 / 625) = 7 / 25"
  by (rule real_sqrt_unique) (simp_all add: power2_eq_square)

lemma rodrigues_plus:
  "asRodrigues (Quat (24 / 25) (7 / 25) 0 0) True = [Fin (7 / 24), Fin 0, Fin 0]"
  using asRodrigues_vector_unit [of "Quat (24 / 25) (7 / 25) 0 0"]
  by (simp add: unit_quaternion_def iszero_def norm3_def power2_eq_square sqrt_49_625)

lemma rodrigues_minus:
  "asRodrigues (Quat (24 / 25) (- (7 / 25)) 0 0) True = [Fin (- (7 / 24)), Fin 0, Fin 0]"
  using asRodrigues_vector_unit [of "Quat (24 / 25) (- (7 / 25)) 0 0"]
  by (simp add: unit_quaternion_def iszero_def norm3_def power2_eq_square sqrt_49_625)

lemma sqrt2_lower: "31 / 24 \<le> sqrt 2"
  by (rule real_le_rsqrt) (simp add: power2_eq_square)

subsection \<open>The order of the two tests of a pair\<close>

text \<open>
  C1. The claim has each pair tested with the misorientation itself first (flag False)
  and its inverse second (flag True). The code inverts \<open>r = b*aInv\<close> before the first
  test, so the inverse is tested first and carries the flag False, and the product itself
  is tested second and carries the flag True. For the fcc orientations with quaternions
  (1, 0, 0, 0) and (24/25, 7/25, 0, 0) the product of the first pair is
  (24/25, 7/25, 0, 0): the code rejects its inverse, accepts the product and returns it
  with the flag True, where the search as the claim words it returns it with the flag
  False.
\<close>

theorem disorientation_order_counterexample:
  "disorientation \<lparr>rotation = Quat 1 0 0 0, lattice = fcc\<rparr>
       \<lparr>rotation = Quat (24 / 25) (7 / 25) 0 0, lattice = fcc\<rparr> True True
     = Inr (Disorientation_symmetries
              \<lparr>rotation = Quat (24 / 25) (7 / 25) 0 0, lattice = fcc\<rparr> 0 0 True) \<and>
   disorientation_spec \<lparr>rotation = Quat 1 0 0 0, lattice = fcc\<rparr>
       \<lparr>rotation = Quat (24 / 25) (7 / 25) 0 0, lattice = fcc\<rparr> True
     = Some (Quat (24 / 25) (7 / 25) 0 0, 0, 0, False)"
proof -
  define self where "self = \<lparr>rotation = Quat 1 0 0 0, lattice = fcc\<rparr>"
  define other where "other = \<lparr>rotation = Quat (24 / 25) (7 / 25) 0 0, lattice = fcc\<rparr>"
  obtain rest_self where eq_self: "equivalent self = self # rest_self"
    using equivalent_head [of self] by (auto simp add: self_def standardize_array_def)
  obtain rest_other where eq_other: "equivalent other = other # rest_other"
    using equivalent_head [of other] by (auto simp add: other_def standardize_array_def)
  have m: "mul_Rotation (rotation other) (inverse_array (rotation self))
             = Quat (24 / 25) (7 / 25) 0 0"
    by (simp add: self_def other_def inverse_array_Quat mul_Rotation_identity_right
        standardize_array_def)
  have sym: "symmetry (lattice self) = symmetry (lattice other)"
    by (simp add: self_def other_def)
  obtain rest where cands: "candidates self other True =
      (Quat (24 / 25) (- (7 / 25)) 0 0, 0, 0, False)
        # (Quat (24 / 25) (7 / 25) 0 0, 0, 0, True) # rest"
    by (simp add: candidates_def own_equivalents_def eq_self eq_other
        pair_candidates_def Let_def m inverse_array_Quat)
  have a1: "\<not> accepted self other True (Quat (24 / 25) (- (7 / 25)) 0 0, 0, 0, False)"
    by (simp add: accepted_def breaker_of_def in_FZ_method_truth_def other_def rodrigues_minus
        inDisorientationSST_def xge_def)
  have a2: "accepted self other True (Quat (24 / 25) (7 / 25) 0 0, 0, 0, True)"
    by (simp add: accepted_def breaker_of_def in_FZ_method_truth_def other_def rodrigues_plus
        inDisorientationSST_def xge_def)
  have code: "disorientation self other True True
                = Inr (Disorientation_symmetries
                         \<lparr>rotation = Quat (24 / 25) (7 / 25) 0 0, lattice = fcc\<rparr> 0 0 True)"
    by (simp add: disorientation_search [OF sym] cands a1 a2 as_result_def)
      (simp add: self_def)
  obtain rest' where cands_spec: "candidates_spec self other True =
      (Quat (24 / 25) (7 / 25) 0 0, 0, 0, False) # rest'"
    by (simp add: candidates_spec_def own_equivalents_def eq_self eq_other
        pair_candidates_spec_def Let_def m inverse_array_Quat)
  have a3: "accepted_spec self other True (Quat (24 / 25) (7 / 25) 0 0, 0, 0, False)"
    using sqrt2_lower
    by (simp add: accepted_spec_def self_def other_def rodrigues_plus inFZ_def
        inDisorientationSST_def xge_def)
  have spec: "disorientation_spec self other True
                = Some (Quat (24 / 25) (7 / 25) 0 0, 0, 0, False)"
    by (simp add: disorientation_spec_def cands_spec a3)
  show ?thesis
    using code spec unfolding self_def other_def by (rule conjI)
qed

subsection \<open>Evaluating the search on cubic orientations\<close>

text \<open>
  The first four cubic operators are the identity and the half turns about the three
  axes, and a unit quaternion with the real part 1/2 has the Rodrigues-Frank vector of
  twice its vector part.
\<close>

lemma not_iszero_norm3: "(1 / 10 ^ 12)\<^sup>2 < dot3 v v \<Longrightarrow> \<not> iszero (norm3 v)"
proof -
  assume "(1 / 10 ^ 12)\<^sup>2 < dot3 v v"
  then have "1 / 10 ^ 12 < sqrt (dot3 v v)" by (rule real_less_rsqrt)
  then show ?thesis by (simp add: iszero_def norm3_def)
qed

lemma asRodrigues_half:
  assumes "\<bar>x\<bar> = 1 / 2" and "\<bar>y\<bar> = 1 / 2" and "\<bar>z\<bar> = 1 / 2"
  shows "asRodrigues (Quat (1 / 2) x y z) True = [Fin (2 * x), Fin (2 * y), Fin (2 * z)]"
proof -
  have half: "\<And>t :: real. \<bar>t\<bar> = 1 / 2 \<Longrightarrow> t * t = 1 / 4"
  proof -
    fix t :: real
    assume t: "\<bar>t\<bar> = 1 / 2"
    have "t * t = \<bar>t\<bar> * \<bar>t\<bar>" by simp
    then show "t * t = 1 / 4" unfolding t by simp
  qed
  have sq: "x * x = 1 / 4" "y * y = 1 / 4" "z * z = 1 / 4"
    using assms by (simp_all add: half)
  have u: "unit_quaternion (Quat (1 / 2) x y z)"
    using sq by (simp add: unit_quaternion_def power2_eq_square)
  have w: "\<not> iszero (q0 (Quat (1 / 2) x y z))"
    by (simp add: iszero_def)
  have n: "\<not> iszero (norm3 (q1 (Quat (1 / 2) x y z), q2 (Quat (1 / 2) x y z),
                              q3 (Quat (1 / 2) x y z)))"
    by (rule not_iszero_norm3) (simp add: sq power2_eq_square)
  show ?thesis
    using asRodrigues_vector_unit [OF u w n] by simp
qed


lemma symQuats_cubic_head:
  "\<exists>rest. symQuats cubic =
     Quat 1 0 0 0 # Quat 0 1 0 0 # Quat 0 0 1 0 # Quat 0 0 0 1 # rest"
  by simp

lemma mul_Rotation_Quat:
  "mul_Rotation (Quat a b c d) (Quat w x y z) =
     standardize_array
       (Quat (a * w - (b * x + c * y + d * z))
             (a * x + w * b + P * (c * z - d * y))
             (a * y + w * c + P * (d * x - b * z))
             (a * z + w * d + P * (b * y - c * x)))"
  by (simp add: mul_Rotation_def Let_def quaternion_p_def append_qp_def)

lemma standardize_array_Quat:
  "standardize_array (Quat w x y z) = (if w < 0 then Quat (- w) (- x) (- y) (- z) else Quat w x y z)"
  by (simp add: standardize_array_def negated_def)

lemma accepted_cubic:
  assumes "symmetry (lattice other) = cubic"
    and "asRodrigues r True = [Fin a, Fin b, Fin c]"
  shows "accepted self other True (r, i, j, flag) \<longleftrightarrow> b \<le> a \<and> c \<le> b \<and> 0 \<le> c"
  using assms
  by (simp add: accepted_def breaker_of_def in_FZ_method_truth_def inDisorientationSST_def
      xge_def)

subsection \<open>The search returns the first admitted candidate\<close>

text \<open>
  C1, amended. For two orientations of the same symmetry class the search visits the
  candidates in the order of \<open>candidates\<close>: own operator index ascending (all of them,
  or only the first when \<open>SST\<close> is false), other operator index ascending, and for each
  pair first the inverse of the product \<open>b*aInv\<close> (flag False) and then the product
  itself (flag True). It returns the first candidate that its acceptance test admits, or
  the last candidate when the test admits none; when \<open>SST\<close> is true every admitted
  candidate has its Rodrigues-Frank vector inside the disorientation standard
  stereographic triangle.
\<close>

theorem disorientation_first_accepted:
  assumes "symmetry (lattice self) = symmetry (lattice other)"
  shows "disorientation self other SST symmetries =
           Inr (as_result self symmetries
                  (case find (accepted self other SST) (candidates self other SST) of
                     Some c \<Rightarrow> c
                   | None \<Rightarrow> last (candidates self other SST)))
         \<and> (\<forall>c. SST \<and> accepted self other SST c \<longrightarrow>
                inDisorientationSST (symmetry (lattice other)) (asRodrigues (fst c) True)
                  = Inr True)"
  using disorientation_search [OF assms] accepted_inside by blast

theorem disorientation_first_accepted_witness:
  "disorientation \<lparr>rotation = Quat 1 0 0 0, lattice = fcc\<rparr>
       \<lparr>rotation = Quat (1 / 2) (- (1 / 2)) (1 / 2) (- (1 / 2)), lattice = fcc\<rparr> True True
     = Inr (Disorientation_symmetries
              \<lparr>rotation = Quat (1 / 2) (1 / 2) (1 / 2) (1 / 2), lattice = fcc\<rparr> 0 3 True) \<and>
   inDisorientationSST cubic (asRodrigues (Quat (1 / 2) (1 / 2) (1 / 2) (1 / 2)) True)
     = Inr True \<and>
   disorientation \<lparr>rotation = Quat 1 0 0 0, lattice = fcc\<rparr>
       \<lparr>rotation = Quat (3 / 5) (4 / 5) 0 0, lattice = fcc\<rparr> False True
     = Inr (Disorientation_symmetries
              \<lparr>rotation = Quat (3 / 5) (- (4 / 5)) 0 0, lattice = fcc\<rparr> 0 0 False)"
proof -
  define self where "self = \<lparr>rotation = Quat 1 0 0 0, lattice = fcc\<rparr>"
  define other where
    "other = \<lparr>rotation = Quat (1 / 2) (- (1 / 2)) (1 / 2) (- (1 / 2)), lattice = fcc\<rparr>"
  have sym: "symmetry (lattice self) = symmetry (lattice other)"
    by (simp add: self_def other_def)
  have cub: "symmetry (lattice other) = cubic"
    by (simp add: other_def)
  have rs: "rotation self = Quat 1 0 0 0"
    by (simp add: self_def)
  obtain rest_self where eq_self: "equivalent self = self # rest_self"
    using equivalent_head [of self] by (auto simp add: self_def standardize_array_def)
  obtain ops where ops: "symQuats cubic =
      Quat 1 0 0 0 # Quat 0 1 0 0 # Quat 0 0 1 0 # Quat 0 0 0 1 # ops"
    using symQuats_cubic_head by blast
  define rest_other where
    "rest_other = map (\<lambda>s. \<lparr>rotation = mul_Rotation s (rotation other), lattice = lattice other\<rparr>) ops"
  have eq_other: "equivalent other =
      \<lparr>rotation = Quat (1 / 2) (- (1 / 2)) (1 / 2) (- (1 / 2)), lattice = fcc\<rparr>
      # \<lparr>rotation = Quat (1 / 2) (1 / 2) (- (1 / 2)) (- (1 / 2)), lattice = fcc\<rparr>
      # \<lparr>rotation = Quat (1 / 2) (- (1 / 2)) (- (1 / 2)) (1 / 2), lattice = fcc\<rparr>
      # \<lparr>rotation = Quat (1 / 2) (1 / 2) (1 / 2) (1 / 2), lattice = fcc\<rparr>
      # rest_other"
    unfolding equivalent_def symmetryOperations_def cub ops rest_other_def
    by (simp add: other_def mul_Rotation_Quat standardize_array_Quat P_def)
  obtain rest where cands: "candidates self other True =
      (Quat (1 / 2) (1 / 2) (- (1 / 2)) (1 / 2), 0, 0, False)
      # (Quat (1 / 2) (- (1 / 2)) (1 / 2) (- (1 / 2)), 0, 0, True)
      # (Quat (1 / 2) (- (1 / 2)) (1 / 2) (1 / 2), 0, 1, False)
      # (Quat (1 / 2) (1 / 2) (- (1 / 2)) (- (1 / 2)), 0, 1, True)
      # (Quat (1 / 2) (1 / 2) (1 / 2) (- (1 / 2)), 0, 2, False)
      # (Quat (1 / 2) (- (1 / 2)) (- (1 / 2)) (1 / 2), 0, 2, True)
      # (Quat (1 / 2) (- (1 / 2)) (- (1 / 2)) (- (1 / 2)), 0, 3, False)
      # (Quat (1 / 2) (1 / 2) (1 / 2) (1 / 2), 0, 3, True)
      # rest"
    by (simp add: candidates_def own_equivalents_def eq_self eq_other pair_candidates_def
        Let_def rs inverse_array_Quat mul_Rotation_identity_right
        standardize_array_Quat numeral_2_eq_2 numeral_3_eq_3)
  have rejected:
    "\<not> accepted self other True (Quat (1 / 2) (1 / 2) (- (1 / 2)) (1 / 2), 0, 0, False)"
    "\<not> accepted self other True (Quat (1 / 2) (- (1 / 2)) (1 / 2) (- (1 / 2)), 0, 0, True)"
    "\<not> accepted self other True (Quat (1 / 2) (- (1 / 2)) (1 / 2) (1 / 2), 0, 1, False)"
    "\<not> accepted self other True (Quat (1 / 2) (1 / 2) (- (1 / 2)) (- (1 / 2)), 0, 1, True)"
    "\<not> accepted self other True (Quat (1 / 2) (1 / 2) (1 / 2) (- (1 / 2)), 0, 2, False)"
    "\<not> accepted self other True (Quat (1 / 2) (- (1 / 2)) (- (1 / 2)) (1 / 2), 0, 2, True)"
    "\<not> accepted self other True (Quat (1 / 2) (- (1 / 2)) (- (1 / 2)) (- (1 / 2)), 0, 3, False)"
    by (simp_all add: accepted_cubic [OF cub asRodrigues_half])
  have admitted: "accepted self other True (Quat (1 / 2) (1 / 2) (1 / 2) (1 / 2), 0, 3, True)"
    by (simp add: accepted_cubic [OF cub asRodrigues_half])
  have found: "find (accepted self other True) (candidates self other True)
                 = Some (Quat (1 / 2) (1 / 2) (1 / 2) (1 / 2), 0, 3, True)"
    unfolding cands using rejected admitted by simp
  have first: "disorientation self other True True
          = Inr (Disorientation_symmetries
                   \<lparr>rotation = Quat (1 / 2) (1 / 2) (1 / 2) (1 / 2), lattice = fcc\<rparr> 0 3 True)"
    using disorientation_first_accepted [OF sym, of True True]
    by (simp add: found as_result_def) (simp add: self_def)
  have inside: "inDisorientationSST cubic
                  (asRodrigues (Quat (1 / 2) (1 / 2) (1 / 2) (1 / 2)) True) = Inr True"
    using disorientation_first_accepted [OF sym, of True True] admitted cub by auto
  define other' where "other' = \<lparr>rotation = Quat (3 / 5) (4 / 5) 0 0, lattice = fcc\<rparr>"
  have sym': "symmetry (lattice self) = symmetry (lattice other')"
    by (simp add: self_def other'_def)
  have ro': "rotation other' = Quat (3 / 5) (4 / 5) 0 0"
    by (simp add: other'_def)
  obtain rest_other' where eq_other': "equivalent other' = other' # rest_other'"
    using equivalent_head [of other'] by (auto simp add: other'_def standardize_array_def)
  obtain rest' where cands': "candidates self other' False =
      (Quat (3 / 5) (- (4 / 5)) 0 0, 0, 0, False) # rest'"
    by (simp add: candidates_def own_equivalents_def eq_self eq_other' pair_candidates_def
        Let_def rs ro' inverse_array_Quat mul_Rotation_identity_right
        standardize_array_Quat)
  have found': "find (accepted self other' False) (candidates self other' False)
                  = Some (Quat (3 / 5) (- (4 / 5)) 0 0, 0, 0, False)"
    unfolding cands' by (simp add: accepted_def breaker_of_def in_FZ_method_truth_def)
  have second: "disorientation self other' False True
          = Inr (Disorientation_symmetries
                   \<lparr>rotation = Quat (3 / 5) (- (4 / 5)) 0 0, lattice = fcc\<rparr> 0 0 False)"
    using disorientation_first_accepted [OF sym', of False True]
    by (simp add: found' as_result_def) (simp add: self_def)
  show ?thesis
    using first inside second unfolding self_def other_def other'_def by simp
qed

subsection \<open>The fundamental zone in the acceptance test\<close>

text \<open>
  The acceptance test names the method \<open>in_FZ\<close> without calling it, so that no
  candidate is tested against the fundamental zone. With \<open>SST\<close> false the first
  candidate is returned whatever it is: for the fcc orientations with quaternions
  (1, 0, 0, 0) and (3/5, 4/5, 0, 0) the result has the Rodrigues-Frank vector
  (-4/3, 0, 0), which lies outside the cubic zone.
\<close>

lemma sqrt_16_25: "sqrt (16 / 25) = 4 / 5"
  by (rule real_sqrt_unique) (simp_all add: power2_eq_square)

lemma sqrt2_upper: "sqrt 2 < 7 / 3"
  by (rule real_less_lsqrt) (simp_all add: power2_eq_square)

lemma disorientation_outside_FZ:
  "disorientation \<lparr>rotation = Quat 1 0 0 0, lattice = fcc\<rparr>
       \<lparr>rotation = Quat (3 / 5) (4 / 5) 0 0, lattice = fcc\<rparr> False False
     = Inr (Disorientation (Quat (3 / 5) (- (4 / 5)) 0 0)) \<and>
   inFZ cubic (asRodrigues (Quat (3 / 5) (- (4 / 5)) 0 0) True) = Inr False"
proof -
  define self where "self = \<lparr>rotation = Quat 1 0 0 0, lattice = fcc\<rparr>"
  define other where "other = \<lparr>rotation = Quat (3 / 5) (4 / 5) 0 0, lattice = fcc\<rparr>"
  obtain rest_self where eq_self: "equivalent self = self # rest_self"
    using equivalent_head [of self] by (auto simp add: self_def standardize_array_def)
  obtain rest_other where eq_other: "equivalent other = other # rest_other"
    using equivalent_head [of other] by (auto simp add: other_def standardize_array_def)
  have m: "mul_Rotation (rotation other) (inverse_array (rotation self))
             = Quat (3 / 5) (4 / 5) 0 0"
    by (simp add: self_def other_def inverse_array_Quat mul_Rotation_identity_right
        standardize_array_def)
  have sym: "symmetry (lattice self) = symmetry (lattice other)"
    by (simp add: self_def other_def)
  obtain rest where cands: "candidates self other False =
      (Quat (3 / 5) (- (4 / 5)) 0 0, 0, 0, False) # rest"
    by (simp add: candidates_def own_equivalents_def eq_self eq_other
        pair_candidates_def Let_def m inverse_array_Quat)
  have a1: "accepted self other False (Quat (3 / 5) (- (4 / 5)) 0 0, 0, 0, False)"
    by (simp add: accepted_def breaker_of_def in_FZ_method_truth_def)
  have code: "disorientation self other False False
                = Inr (Disorientation (Quat (3 / 5) (- (4 / 5)) 0 0))"
    by (simp add: disorientation_search [OF sym] cands a1 as_result_def)
  have ro: "asRodrigues (Quat (3 / 5) (- (4 / 5)) 0 0) True = [Fin (- (4 / 3)), Fin 0, Fin 0]"
    using asRodrigues_vector_unit [of "Quat (3 / 5) (- (4 / 5)) 0 0"]
    by (simp add: unit_quaternion_def iszero_def norm3_def power2_eq_square sqrt_16_25)
  have fz: "inFZ cubic (asRodrigues (Quat (3 / 5) (- (4 / 5)) 0 0) True) = Inr False"
    using sqrt2_upper by (simp add: ro inFZ_def xge_def)
  show ?thesis
    using code fz unfolding self_def other_def by (rule conjI)
qed

section \<open>Properties of averaging\<close>

subsection \<open>The index of the largest eigenvalue\<close>

lemma argmax_from_greatest:
  assumes "k < length ys" and "ys ! k = best" and "\<forall>y\<in>set ys. y \<le> best"
  shows "argmax_from k best (length ys) xs < length (ys @ xs) \<and>
         (\<forall>y\<in>set (ys @ xs). y \<le> (ys @ xs) ! argmax_from k best (length ys) xs)"
  using assms
proof (induction xs arbitrary: ys k best)
  case Nil
  then show ?case by simp
next
  case (Cons x xs)
  show ?case
  proof (cases "best < x")
    case True
    have "argmax_from (length ys) x (length (ys @ [x])) xs < length ((ys @ [x]) @ xs) \<and>
          (\<forall>y\<in>set ((ys @ [x]) @ xs).
              y \<le> ((ys @ [x]) @ xs) ! argmax_from (length ys) x (length (ys @ [x])) xs)"
      using Cons.prems True by (intro Cons.IH) (auto simp add: nth_append)
    then show ?thesis using True by simp
  next
    case False
    have "argmax_from k best (length (ys @ [x])) xs < length ((ys @ [x]) @ xs) \<and>
          (\<forall>y\<in>set ((ys @ [x]) @ xs).
              y \<le> ((ys @ [x]) @ xs) ! argmax_from k best (length (ys @ [x])) xs)"
      using Cons.prems False by (intro Cons.IH) (auto simp add: nth_append)
    then show ?thesis using False by simp
  qed
qed

lemma argmax_greatest:
  assumes "xs \<noteq> []"
  shows "\<exists>k. argmax xs = Inr k \<and> k < length xs \<and> (\<forall>y\<in>set xs. y \<le> xs ! k)"
proof -
  obtain x rest where xs: "xs = x # rest" using assms by (cases xs) auto
  have "argmax_from 0 x (length [x]) rest < length ([x] @ rest) \<and>
        (\<forall>y\<in>set ([x] @ rest). y \<le> ([x] @ rest) ! argmax_from 0 x (length [x]) rest)"
    by (rule argmax_from_greatest) simp_all
  then show ?thesis by (simp add: argmax_def xs)
qed

lemma sum_list_all_zero: "\<forall>x\<in>set (ws :: real list). x = 0 \<Longrightarrow> sum_list ws = 0"
  by (induction ws) simp_all

lemma asM_single: "matrix_over (matrix_times (asM q) 1) 1 = asM q"
  by (simp add: matrix_over_def matrix_times_def asM_def quaternion_list_def)

lemma trace_asM: "trace (asM q) = (q0 q)\<^sup>2 + (q1 q)\<^sup>2 + (q2 q)\<^sup>2 + (q3 q)\<^sup>2"
  by (simp add: trace_def asM_def quaternion_list_def power2_eq_square upt_rec)

lemma eigenpair_asM:
  assumes u: "unit_quaternion q" and v: "unit_quaternion v"
    and e: "matrix_apply (asM q) v = map (\<lambda>a. w * a) (quaternion_list v)"
  shows "w = 0 \<or> (w = 1 \<and> (v = q \<or> v = negated q))"
proof -
  obtain a b c d where q: "q = Quat a b c d" by (cases q)
  obtain x y z t where vv: "v = Quat x y z t" by (cases v)
  define dd where "dd = a * x + b * y + c * z + d * t"
  have uq: "a * a + b * b + c * c + d * d = 1"
    using u by (simp add: unit_quaternion_def q power2_eq_square)
  have uv: "x * x + y * y + z * z + t * t = 1"
    using v by (simp add: unit_quaternion_def vv power2_eq_square)
  have e0: "a * dd = w * x" and e1: "b * dd = w * y" and e2: "c * dd = w * z"
    and e3: "d * dd = w * t"
    using e by (simp_all add: matrix_apply_def asM_def quaternion_list_def q vv dd_def
        algebra_simps)
  have "a * (a * dd) + b * (b * dd) + c * (c * dd) + d * (d * dd) = dd"
    using uq by (metis distrib_right mult.assoc mult_1)
  then have "a * (w * x) + b * (w * y) + c * (w * z) + d * (w * t) = dd"
    by (simp only: e0 e1 e2 e3)
  then have wd: "w * dd = dd"
    by (simp add: dd_def algebra_simps)
  show ?thesis
  proof (cases "dd = 0")
    case True
    then have "w * x = 0" "w * y = 0" "w * z = 0" "w * t = 0"
      using e0 e1 e2 e3 by simp_all
    then have "w = 0 \<or> (x = 0 \<and> y = 0 \<and> z = 0 \<and> t = 0)" by auto
    then show ?thesis using uv by auto
  next
    case False
    then have w1: "w = 1" using wd by simp
    have x: "x = a * dd" and y: "y = b * dd" and z: "z = c * dd" and t: "t = d * dd"
      using e0 e1 e2 e3 w1 by simp_all
    have "(a * dd) * (a * dd) + (b * dd) * (b * dd) + (c * dd) * (c * dd)
            + (d * dd) * (d * dd) = 1"
      using uv x y z t by simp
    then have "(a * a + b * b + c * c + d * d) * (dd * dd) = 1"
      by (simp add: algebra_simps)
    then have "dd * dd = 1" using uq by simp
    then have "dd = 1 \<or> dd = - 1"
      using square_eq_1_iff [of dd] by blast
    then show ?thesis
      using w1 x y z t by (auto simp add: q vv negated_def)
  qed
qed

text \<open>
  C5. For a rotation \<open>r\<close> with a unit quaternion, \<open>Rotation.fromAverage([r])\<close> without
  weights returns a rotation whose quaternion is that of \<open>r\<close> up to the global sign,
  with a real component that is not negative. The matrix handed to \<open>eig\<close> is the outer
  product of the quaternion with itself; \<open>eig\<close> is any function that returns for it what
  numpy documents.
\<close>

theorem fromAverage_single:
  assumes "unit_quaternion q" and "eig_documented (asM q) (eig (asM q))"
  shows "\<exists>r. Rotation_fromAverage eig [q] [] = Inr r \<and> (r = q \<or> r = negated q) \<and> 0 \<le> q0 r"
proof -
  obtain eigvals vecT where ev: "eig (asM q) = (eigvals, vecT)" by (cases "eig (asM q)")
  have len: "length eigvals = 4" "length vecT = 4"
    and tr: "sum_list eigvals = trace (asM q)"
    and pairs: "list_all (\<lambda>(w, v). matrix_apply (asM q) v = map (\<lambda>a. w * a) (quaternion_list v)
                            \<and> unit_quaternion v) (zip eigvals vecT)"
    using assms(2) by (simp_all add: eig_documented_def ev)
  have pair: "\<And>i. i < 4 \<Longrightarrow>
      matrix_apply (asM q) (vecT ! i) = map (\<lambda>a. eigvals ! i * a) (quaternion_list (vecT ! i))
      \<and> unit_quaternion (vecT ! i)"
    using pairs len by (simp add: list_all_length)
  have each: "\<And>i. i < 4 \<Longrightarrow>
      eigvals ! i = 0 \<or> (eigvals ! i = 1 \<and> (vecT ! i = q \<or> vecT ! i = negated q))"
    using eigenpair_asM [OF assms(1)] pair by blast
  have sum1: "sum_list eigvals = 1"
    using tr assms(1) by (simp add: trace_asM unit_quaternion_def)
  have "eigvals \<noteq> []" using len by auto
  then obtain k where k: "argmax eigvals = Inr k" "k < length eigvals"
    "\<forall>y\<in>set eigvals. y \<le> eigvals ! k"
    using argmax_greatest by blast
  have "\<not> (\<forall>x\<in>set eigvals. x = 0)"
    using sum1 sum_list_all_zero [of eigvals] by auto
  then obtain i where i: "i < 4" "eigvals ! i \<noteq> 0"
    using len by (auto simp add: in_set_conv_nth)
  then have "eigvals ! i = 1" using each by blast
  moreover have "eigvals ! i \<le> eigvals ! k"
    using k(3) i(1) len by simp
  ultimately have "eigvals ! k \<noteq> 0" by auto
  then have vk: "vecT ! k = q \<or> vecT ! k = negated q"
    using each [of k] k(2) len by auto
  have uk: "unit_quaternion (vecT ! k)"
    using pair [of k] k(2) len by simp
  have norm1: "quaternion_norm (vecT ! k) = 1" "quaternion_norm (negated (vecT ! k)) = 1"
    using uk by (simp_all add: quaternion_norm_def unit_quaternion_def negated_def)
  have nn: "negated (negated q) = q"
    by (cases q) (simp add: negated_def)
  have run: "Rotation_fromAverage eig [q] [] =
               Inr (if q0 (vecT ! k) < 0 then negated (vecT ! k) else vecT ! k)"
    using k(1,2) len norm1
    by (simp add: Rotation_fromAverage_def Let_def asM_single ev fromQuaternion_def isclose_def)
  show ?thesis
    unfolding run using vk by (auto simp add: nn negated_def)
qed

theorem fromAverage_single_witness:
  "unit_quaternion (Quat (- 1) 0 0 0) \<and>
   Rotation_fromAverage
     (\<lambda>M. ([0, 1, 0, 0], [Quat 0 1 0 0, Quat (- 1) 0 0 0, Quat 0 0 1 0, Quat 0 0 0 1]))
     [Quat (- 1) 0 0 0] [] = Inr (Quat 1 0 0 0)"
proof -
  define eig :: "real list list \<Rightarrow> real list \<times> quaternion list" where
    "eig = (\<lambda>M. ([0, 1, 0, 0], [Quat 0 1 0 0, Quat (- 1) 0 0 0, Quat 0 0 1 0, Quat 0 0 0 1]))"
  have u: "unit_quaternion (Quat (- 1) 0 0 0)"
    by (simp add: unit_quaternion_def)
  have d: "eig_documented (asM (Quat (- 1) 0 0 0)) (eig (asM (Quat (- 1) 0 0 0)))"
    by (simp add: eig_documented_def eig_def trace_def upt_rec matrix_apply_def asM_def
        quaternion_list_def unit_quaternion_def)
  have "Rotation_fromAverage eig [Quat (- 1) 0 0 0] [] = Inr (Quat 1 0 0 0)"
    using fromAverage_single [of "Quat (- 1) 0 0 0" eig, OF u d]
    by (simp add: Rotation_fromAverage_def Let_def asM_single eig_def argmax_def
        fromQuaternion_def negated_def isclose_def quaternion_norm_def)
  then show ?thesis using u by (simp add: eig_def)
qed

section \<open>Properties of the orientation relationships\<close>

subsection \<open>The frames of a row and their product\<close>

text \<open>
  A plane normal and a direction that are perpendicular and not zero give, after
  normalisation, the right-handed orthonormal frame (direction, normal x direction,
  normal). The product of the transpose of one such frame with another has determinant 1
  and perpendicular rows, so \<open>fromMatrix\<close> accepts it.
\<close>

lemma frame_proper:
  assumes "dot3 u u = 1" and "dot3 w w = 1" and "dot3 w u = 0"
  shows "proper_rotation (u, cross3 w u, w)"
proof -
  obtain u0 u1 u2 where u: "u = (u0, u1, u2)" by (cases u)
  obtain w0 w1 w2 where w: "w = (w0, w1, w2)" by (cases w)
  define U where "U = u0 * u0 + u1 * u1 + u2 * u2"
  define W where "W = w0 * w0 + w1 * w1 + w2 * w2"
  define D where "D = w0 * u0 + w1 * u1 + w2 * u2"
  have U: "U = 1" and W: "W = 1" and D: "D = 0"
    using assms by (simp_all add: u w U_def W_def D_def)
  define v0 where "v0 = w1 * u2 - w2 * u1"
  define v1 where "v1 = w2 * u0 - w0 * u2"
  define v2 where "v2 = w0 * u1 - w1 * u0"
  have v: "cross3 w u = (v0, v1, v2)"
    by (simp add: u w v0_def v1_def v2_def)
  have outer:
    "v0 * v0 = (W * U - D * D) - U * (w0 * w0) - W * (u0 * u0) + D * (w0 * u0 + u0 * w0)"
    "v1 * v1 = (W * U - D * D) - U * (w1 * w1) - W * (u1 * u1) + D * (w1 * u1 + u1 * w1)"
    "v2 * v2 = (W * U - D * D) - U * (w2 * w2) - W * (u2 * u2) + D * (w2 * u2 + u2 * w2)"
    "v0 * v1 = - U * (w0 * w1) - W * (u0 * u1) + D * (w0 * u1 + u0 * w1)"
    "v1 * v2 = - U * (w1 * w2) - W * (u1 * u2) + D * (w1 * u2 + u1 * w2)"
    "v2 * v0 = - U * (w2 * w0) - W * (u2 * u0) + D * (w2 * u0 + u2 * w0)"
    unfolding U_def W_def D_def v0_def v1_def v2_def by (simp_all add: algebra_simps)
  have outer1:
    "v0 * v0 = 1 - w0 * w0 - u0 * u0" "v1 * v1 = 1 - w1 * w1 - u1 * u1"
    "v2 * v2 = 1 - w2 * w2 - u2 * u2" "v0 * v1 = - (w0 * w1) - u0 * u1"
    "v1 * v2 = - (w1 * w2) - u1 * u2" "v2 * v0 = - (w2 * w0) - u2 * u0"
    using outer unfolding U W D by simp_all
  have vv: "v0 * v0 + v1 * v1 + v2 * v2 = 1"
    using outer1(1-3) U W unfolding U_def W_def by simp
  have uv: "u0 * v0 + u1 * v1 + u2 * v2 = 0" and vw: "v0 * w0 + v1 * w1 + v2 * w2 = 0"
    unfolding v0_def v1_def v2_def by (simp_all add: algebra_simps)
  have det: "u0 * (v1 * w2 - v2 * w1) + u1 * (v2 * w0 - v0 * w2) + u2 * (v0 * w1 - v1 * w0)
               = W * U - D * D"
    unfolding U_def W_def D_def v0_def v1_def v2_def by (simp add: algebra_simps)
  note vdefs = v0_def v1_def v2_def
  have rows: "orthonormal_rows (u, cross3 w u, w)"
    using assms vv [unfolded vdefs] uv [unfolded vdefs] vw [unfolded vdefs]
    by (simp add: orthonormal_rows_def u w mult.commute)
  have cols: "orthonormal_rows (transpose3 (u, cross3 w u, w))"
    using outer1 [unfolded vdefs] by (simp add: orthonormal_rows_def u w mult.commute)
  have "det3 (u, cross3 w u, w) = 1"
    using det [unfolded vdefs U W D] by (simp add: u w mult.commute)
  then show ?thesis using rows cols by (simp add: proper_rotation_def)
qed


lemma det3_product:
  "det3 (matmul3 (transpose3 a) b) = det3 a * det3 b"
proof -
  obtain a00 a01 a02 a10 a11 a12 a20 a21 a22
    where a: "a = ((a00, a01, a02), (a10, a11, a12), (a20, a21, a22))"
    by (metis prod_cases3)
  obtain b00 b01 b02 b10 b11 b12 b20 b21 b22
    where b: "b = ((b00, b01, b02), (b10, b11, b12), (b20, b21, b22))"
    by (metis prod_cases3)
  show ?thesis
    by (simp add: a b matmul3_def algebra_simps)
qed

lemma rows_product:
  assumes "orthonormal_rows b" and "orthonormal_rows (transpose3 a)"
  shows "orthonormal_rows (matmul3 (transpose3 a) b)"
proof -
  obtain a00 a01 a02 a10 a11 a12 a20 a21 a22
    where a: "a = ((a00, a01, a02), (a10, a11, a12), (a20, a21, a22))"
    by (metis prod_cases3)
  obtain b0 b1 b2 where b: "b = (b0, b1, b2)" by (cases b)
  define g00 where "g00 = dot3 b0 b0"
  define g11 where "g11 = dot3 b1 b1"
  define g22 where "g22 = dot3 b2 b2"
  define g01 where "g01 = dot3 b0 b1"
  define g12 where "g12 = dot3 b1 b2"
  define g20 where "g20 = dot3 b2 b0"
  note gdefs = g00_def g11_def g22_def g01_def g12_def g20_def
  have g: "g00 = 1" "g11 = 1" "g22 = 1" "g01 = 0" "g12 = 0" "g20 = 0"
    using assms(1) by (simp_all add: orthonormal_rows_def b gdefs)
  have row: "\<And>x y z p q r.
      dot3 (add3 (add3 (scale3 x b0) (scale3 y b1)) (scale3 z b2))
           (add3 (add3 (scale3 p b0) (scale3 q b1)) (scale3 r b2))
        = x * p * g00 + y * q * g11 + z * r * g22
          + (x * q + y * p) * g01 + (y * r + z * q) * g12 + (z * p + x * r) * g20"
    unfolding gdefs
    by (cases b0; cases b1; cases b2) (simp add: algebra_simps)
  have prod: "matmul3 (transpose3 a) b =
      (add3 (add3 (scale3 a00 b0) (scale3 a10 b1)) (scale3 a20 b2),
       add3 (add3 (scale3 a01 b0) (scale3 a11 b1)) (scale3 a21 b2),
       add3 (add3 (scale3 a02 b0) (scale3 a12 b1)) (scale3 a22 b2))"
    by (cases b0; cases b1; cases b2) (simp add: a b matmul3_def)
  show ?thesis
    using assms(2)
    unfolding prod orthonormal_rows_def
    by (simp add: row g a)
qed

lemma fromMatrix_product:
  assumes "proper_rotation a" and "proper_rotation b"
  shows "fromMatrix (matmul3 (transpose3 a) b) = Inr (om2qu (matmul3 (transpose3 a) b))"
proof -
  have d: "det3 (matmul3 (transpose3 a) b) = 1"
    using assms by (simp add: det3_product proper_rotation_def)
  have "orthonormal_rows (matmul3 (transpose3 a) b)"
    using assms by (intro rows_product) (simp_all add: proper_rotation_def)
  then show ?thesis
    using d
    by (cases "matmul3 (transpose3 a) b")
      (simp add: fromMatrix_def orthonormal_rows_def isclose_def)
qed


lemma dot3_div3: "dot3 (div3 a n) (div3 b m) = dot3 a b / (n * m)"
  by (cases a; cases b) (simp add: add_divide_distrib)

lemma dot3_nonnegative: "0 \<le> dot3 v v"
  by (cases v) simp

lemma unit_div3: "dot3 v v \<noteq> 0 \<Longrightarrow> dot3 (div3 v (norm3 v)) (div3 v (norm3 v)) = 1"
  using dot3_nonnegative [of v] by (simp add: dot3_div3 norm3_def)

lemma frame_of_row:
  assumes "dot3 plane dir = 0" and "dot3 plane plane \<noteq> 0" and "dot3 dir dir \<noteq> 0"
  shows "proper_rotation
           (div3 dir (norm3 dir),
            cross3 (div3 plane (norm3 plane)) (div3 dir (norm3 dir)),
            div3 plane (norm3 plane))"
proof (rule frame_proper)
  show "dot3 (div3 dir (norm3 dir)) (div3 dir (norm3 dir)) = 1"
    using assms(3) by (rule unit_div3)
  show "dot3 (div3 plane (norm3 plane)) (div3 plane (norm3 plane)) = 1"
    using assms(2) by (rule unit_div3)
  show "dot3 (div3 plane (norm3 plane)) (div3 dir (norm3 dir)) = 0"
    using assms(1) by (simp add: dot3_div3)
qed

lemma relation_rotation_good:
  assumes "good_row miller" and "myPlane_id < 2"
  shows "relation_rotation myPlane_id miller = Inr (om2qu (relation_matrix myPlane_id miller))"
proof -
  obtain plane0 plane1 dir0 dir1 where m: "miller = [plane0, plane1, dir0, dir1]"
    and p: "dot3 plane0 dir0 = 0" "dot3 plane1 dir1 = 0"
    and n: "dot3 plane0 plane0 \<noteq> 0" "dot3 plane1 plane1 \<noteq> 0"
           "dot3 dir0 dir0 \<noteq> 0" "dot3 dir1 dir1 \<noteq> 0"
    using assms(1)
    by (auto simp add: good_row_def split: list.splits)
  have f0: "proper_rotation
           (div3 dir0 (norm3 dir0),
            cross3 (div3 plane0 (norm3 plane0)) (div3 dir0 (norm3 dir0)),
            div3 plane0 (norm3 plane0))"
    using p(1) n(1,3) by (rule frame_of_row)
  have f1: "proper_rotation
           (div3 dir1 (norm3 dir1),
            cross3 (div3 plane1 (norm3 plane1)) (div3 dir1 (norm3 dir1)),
            div3 plane1 (norm3 plane1))"
    using p(2) n(2,4) by (rule frame_of_row)
  consider "myPlane_id = 0" | "myPlane_id = 1" using assms(2) by linarith
  then show ?thesis
  proof cases
    case 1
    then show ?thesis
      using fromMatrix_product [OF f1 f0]
      by (simp add: relation_rotation_def relation_matrix_def m Let_def)
  next
    case 2
    then show ?thesis
      using fromMatrix_product [OF f0 f1]
      by (simp add: relation_rotation_def relation_matrix_def m Let_def)
  qed
qed

lemma relation_rotations_good:
  assumes "list_all good_row rows" and "myPlane_id < 2"
  shows "relation_rotations myPlane_id rows
           = Inr (map (\<lambda>miller. om2qu (relation_matrix myPlane_id miller)) rows)"
  using assms(1)
  by (induction rows) (simp_all add: relation_rotation_good [OF _ assms(2)])

lemma good_KS: "list_all good_row (hstack (planes KS) (directions KS))"
  by (simp add: KS_def KS_planes_def KS_directions_def hstack_def good_row_def)

lemma good_GT: "list_all good_row (hstack (planes GT) (directions GT))"
  by (simp add: GT_def GT_planes_def GT_directions_def hstack_def good_row_def)

lemma good_GTprime: "list_all good_row (hstack (planes GTprime) (directions GTprime))"
  by (simp add: GTprime_def GTprime_planes_def GTprime_directions_def hstack_def good_row_def)

lemma good_NW: "list_all good_row (hstack (planes NW) (directions NW))"
  by (simp add: NW_def NW_planes_def NW_directions_def hstack_def good_row_def)

lemma good_Pitsch: "list_all good_row (hstack (planes Pitsch) (directions Pitsch))"
  by (simp add: Pitsch_def Pitsch_planes_def Pitsch_directions_def hstack_def good_row_def)

lemma good_Bain: "list_all good_row (hstack (planes Bain) (directions Bain))"
  by (simp add: Bain_def Bain_planes_def Bain_directions_def hstack_def good_row_def)


lemma models_lookup:
  "map_of models ''KS'' = Some KS" "map_of models ''GT'' = Some GT"
  "map_of models ''GT_prime'' = Some GTprime" "map_of models ''NW'' = Some NW"
  "map_of models ''Pitsch'' = Some Pitsch" "map_of models ''Bain'' = Some Bain"
  by (simp_all add: models_def)

lemma models_mapping:
  "mapping KS = [(fcc, 0), (bcc, 1)]" "mapping GT = [(fcc, 0), (bcc, 1)]"
  "mapping GTprime = [(fcc, 0), (bcc, 1)]" "mapping NW = [(fcc, 0), (bcc, 1)]"
  "mapping Pitsch = [(fcc, 0), (bcc, 1)]" "mapping Bain = [(fcc, 0), (bcc, 1)]"
  by (simp_all add: KS_def GT_def GTprime_def NW_def Pitsch_def Bain_def)

lemma relationOperations_known:
  assumes "map_of models model = Some rel" and "mapping rel = [(fcc, 0), (bcc, 1)]"
    and "list_all good_row (hstack (planes rel) (directions rel))"
  shows "relationOperations self_lattice model =
           (if self_lattice = fcc \<or> self_lattice = bcc
            then Inr \<lparr>rel_lattice = (if self_lattice = fcc then bcc else fcc),
                      rotations = map (\<lambda>miller. om2qu (relation_matrix
                                                         (if self_lattice = fcc then 0 else 1) miller))
                                      (hstack (planes rel) (directions rel))\<rparr>
            else Inl Relationship_unsupported)"
  by (cases self_lattice)
    (simp_all add: relationOperations_def assms(1,2) relation_rotations_good [OF assms(3)])

lemma relationOperations_unknown:
  assumes "model \<notin> {''KS'', ''GT'', ''GT_prime'', ''NW'', ''Pitsch'', ''Bain''}"
  shows "relationOperations self_lattice model = Inl Relationship_unknown"
proof -
  have "map_of models model = None"
    using assms by (simp add: models_def)
  then show ?thesis by (simp add: relationOperations_def)
qed

text \<open>
  C7. \<open>relationOperations\<close> raises the unknown-relationship error exactly when the
  model is none of KS, GT, GT_prime, NW, Pitsch and Bain, and the unsupported-lattice
  error exactly when the model is known and the lattice is neither fcc nor bcc.
  Otherwise it returns the other of the two lattices together with one rotation for each
  row of the relationship, the rotation of the matrix that the row gives.
\<close>

theorem relationOperations_result:
  fixes self_lattice :: Lattice and model :: string
  defines "known \<equiv> model \<in> {''KS'', ''GT'', ''GT_prime'', ''NW'', ''Pitsch'', ''Bain''}"
    and "endpoint \<equiv> self_lattice = fcc \<or> self_lattice = bcc"
  shows "(relationOperations self_lattice model = Inl Relationship_unknown \<longleftrightarrow> \<not> known) \<and>
         (relationOperations self_lattice model = Inl Relationship_unsupported
            \<longleftrightarrow> known \<and> \<not> endpoint) \<and>
         (known \<and> endpoint \<longrightarrow>
            (\<exists>rel. map_of models model = Some rel \<and>
               relationOperations self_lattice model =
                 Inr \<lparr>rel_lattice = (if self_lattice = fcc then bcc else fcc),
                      rotations = map (\<lambda>miller. om2qu (relation_matrix
                                                         (if self_lattice = fcc then 0 else 1) miller))
                                      (hstack (planes rel) (directions rel))\<rparr>))"
proof (cases known)
  case False
  then have "relationOperations self_lattice model = Inl Relationship_unknown"
    unfolding known_def by (rule relationOperations_unknown)
  then show ?thesis using False by simp
next
  case True
  then consider "model = ''KS''" | "model = ''GT''" | "model = ''GT_prime''"
    | "model = ''NW''" | "model = ''Pitsch''" | "model = ''Bain''"
    unfolding known_def by blast
  then obtain rel where rel: "map_of models model = Some rel"
    "mapping rel = [(fcc, 0), (bcc, 1)]"
    "list_all good_row (hstack (planes rel) (directions rel))"
  proof cases
    case 1
    have "map_of models model = Some KS" unfolding 1 by (rule models_lookup)
    then show ?thesis using models_mapping(1) good_KS by (rule that)
  next
    case 2
    have "map_of models model = Some GT" unfolding 2 by (rule models_lookup)
    then show ?thesis using models_mapping(2) good_GT by (rule that)
  next
    case 3
    have "map_of models model = Some GTprime" unfolding 3 by (rule models_lookup)
    then show ?thesis using models_mapping(3) good_GTprime by (rule that)
  next
    case 4
    have "map_of models model = Some NW" unfolding 4 by (rule models_lookup)
    then show ?thesis using models_mapping(4) good_NW by (rule that)
  next
    case 5
    have "map_of models model = Some Pitsch" unfolding 5 by (rule models_lookup)
    then show ?thesis using models_mapping(5) good_Pitsch by (rule that)
  next
    case 6
    have "map_of models model = Some Bain" unfolding 6 by (rule models_lookup)
    then show ?thesis using models_mapping(6) good_Bain by (rule that)
  qed
  note eq = relationOperations_known [OF rel, of self_lattice]
  show ?thesis
  proof (cases endpoint)
    case e: True
    have r: "relationOperations self_lattice model =
               Inr \<lparr>rel_lattice = (if self_lattice = fcc then bcc else fcc),
                    rotations = map (\<lambda>miller. om2qu (relation_matrix
                                                       (if self_lattice = fcc then 0 else 1) miller))
                                    (hstack (planes rel) (directions rel))\<rparr>"
      using eq e unfolding endpoint_def by simp
    have "\<exists>rel. map_of models model = Some rel \<and>
               relationOperations self_lattice model =
                 Inr \<lparr>rel_lattice = (if self_lattice = fcc then bcc else fcc),
                      rotations = map (\<lambda>miller. om2qu (relation_matrix
                                                         (if self_lattice = fcc then 0 else 1) miller))
                                      (hstack (planes rel) (directions rel))\<rparr>"
      using rel(1) r by blast
    moreover have "relationOperations self_lattice model \<noteq> Inl Relationship_unknown"
      "relationOperations self_lattice model \<noteq> Inl Relationship_unsupported"
      unfolding r by simp_all
    ultimately show ?thesis using True e by simp
  next
    case e: False
    have r: "relationOperations self_lattice model = Inl Relationship_unsupported"
      using eq e unfolding endpoint_def by simp
    show ?thesis unfolding r using True e by simp
  qed
qed

theorem relationOperations_result_witness:
  "relationOperations hex ''KS'' = Inl Relationship_unsupported \<and>
   relationOperations fcc ''Kurdjumov'' = Inl Relationship_unknown \<and>
   relationOperations bcc ''Bain'' =
     Inr \<lparr>rel_lattice = fcc,
          rotations = map (\<lambda>miller. om2qu (relation_matrix 1 miller))
                          (hstack Bain_planes Bain_directions)\<rparr>"
  using relationOperations_result [of hex "''KS''"]
    relationOperations_result [of fcc "''Kurdjumov''"]
    relationOperations_result [of bcc "''Bain''"]
  by (simp add: models_def Bain_def)

end
